theory Spec2Isabelle
  imports Complex_Main
begin

section \<open>Label propagation of \<^verbatim>\<open>src/utils.py\<close>\<close>

text \<open>
  The development embeds \<^verbatim>\<open>label_propagation\<close> (lines 195-241 of \<^verbatim>\<open>src/utils.py\<close>).
  Floating-point numbers are read as exact reals extended with the three special values
  that numpy produces instead of raising: \<open>nan\<close>, \<open>inf\<close> and \<open>-inf\<close>. Rounding and the
  sign of zero are not modelled. Python exceptions are values of type \<open>error\<close>.
\<close>

subsection \<open>Numbers with \<open>nan\<close> and \<open>inf\<close>\<close>

datatype val = Fin real | PInf | MInf | NaN

fun is_fin :: "val \<Rightarrow> bool" where
  "is_fin (Fin _) = True"
| "is_fin _ = False"

fun val_add :: "val \<Rightarrow> val \<Rightarrow> val" where
  "val_add (Fin a) (Fin b) = Fin (a + b)"
| "val_add NaN _ = NaN"
| "val_add _ NaN = NaN"
| "val_add PInf MInf = NaN"
| "val_add MInf PInf = NaN"
| "val_add PInf _ = PInf"
| "val_add _ PInf = PInf"
| "val_add MInf _ = MInf"
| "val_add _ MInf = MInf"

text \<open>Product of a finite weight of the graph with an entry of the working matrix.\<close>

fun val_scale :: "real \<Rightarrow> val \<Rightarrow> val" where
  "val_scale w (Fin b) = Fin (w * b)"
| "val_scale w NaN = NaN"
| "val_scale w PInf = (if 0 < w then PInf else if w < 0 then MInf else NaN)"
| "val_scale w MInf = (if 0 < w then MInf else if w < 0 then PInf else NaN)"

text \<open>
  \<^verbatim>\<open>np.divide\<close> never raises: a division by zero gives \<open>nan\<close> (for \<open>0/0\<close>) or an
  infinity, with a RuntimeWarning only.
\<close>

fun val_div :: "val \<Rightarrow> val \<Rightarrow> val" where
  "val_div (Fin a) (Fin b) =
     (if b \<noteq> 0 then Fin (a / b)
      else if 0 < a then PInf else if a < 0 then MInf else NaN)"
| "val_div NaN _ = NaN"
| "val_div _ NaN = NaN"
| "val_div (Fin a) _ = Fin 0"
| "val_div PInf (Fin b) = (if 0 \<le> b then PInf else MInf)"
| "val_div MInf (Fin b) = (if 0 \<le> b then MInf else PInf)"
| "val_div _ _ = NaN"

text \<open>Strict comparison; every comparison with \<open>nan\<close> is false.\<close>

fun val_less :: "val \<Rightarrow> val \<Rightarrow> bool" where
  "val_less (Fin a) (Fin b) = (a < b)"
| "val_less NaN _ = False"
| "val_less _ NaN = False"
| "val_less MInf MInf = False"
| "val_less MInf _ = True"
| "val_less _ MInf = False"
| "val_less PInf _ = False"
| "val_less _ PInf = True"

subsection \<open>Data\<close>

datatype error = ValueError | NameError

text \<open>
  One row of the \<^verbatim>\<open>results\<close> table, with the four columns that \<^verbatim>\<open>label_propagation\<close>
  reads: the columns \<^verbatim>\<open>'Normal'\<close> and \<^verbatim>\<open>'Tumor'\<close> that the table has on entry (the
  signature scores that \<^verbatim>\<open>load_scores\<close> concatenates to the observations) and the columns
  \<^verbatim>\<open>'LR_proba_Normal'\<close>, \<^verbatim>\<open>'LR_proba_Tumor'\<close> that \<^verbatim>\<open>cell_annotator\<close> writes from
  \<^verbatim>\<open>predict_proba\<close> (lines 181-182).
\<close>

record cell =
  Normal :: real
  Tumor :: real
  LR_proba_Normal :: real
  LR_proba_Tumor :: real

text \<open>
  A value of \<^verbatim>\<open>idxmax(axis=1)\<close>: the name of a column, or \<open>nan\<close> for a row whose entries
  are all \<open>nan\<close>.
\<close>

datatype label = Label_Normal | Label_Tumor | Label_NaN

text \<open>A row of \<^verbatim>\<open>proba_tier_0\<close>: the columns \<^verbatim>\<open>'Normal'\<close> and \<^verbatim>\<open>'Tumor'\<close>.\<close>

type_synonym row = "val \<times> val"

text \<open>
  The columns that \<^verbatim>\<open>label_propagation\<close> adds to the table, and what it prints: one
  drift value for each warning.
\<close>

record lp_result =
  certain :: "bool list"
  certain_i :: "bool list list"
  LR_with_label_propagation_tier_0_prediction :: "label list"
  LR_with_label_propagation_proba_Normal :: "val list"
  LR_with_label_propagation_proba_Tumor :: "val list"
  printed_warnings :: "val list"

text \<open>
  The variables of the loop. \<open>pre = None\<close> is the local variable \<^verbatim>\<open>pre\<close> before its first
  assignment (line 228).
\<close>

record lp_state =
  proba_tier_0 :: "row list"
  pre :: "label list option"
  certain_cols :: "bool list list"
  printed :: "val list"

subsection \<open>Quantiles and masks\<close>

text \<open>
  \<^verbatim>\<open>np.linspace(1, 0, n)[i]\<close> for \<open>0 \<le> i < n\<close>: with one point the array is \<open>[1.]\<close>.
\<close>

definition linspace_1_0 :: "int \<Rightarrow> nat \<Rightarrow> real" where
  "linspace_1_0 n i = (if n = 1 then 1 else 1 - real i / real_of_int (n - 1))"

text \<open>
  \<^verbatim>\<open>Series.quantile\<close> with linear interpolation on the sorted values: position
  \<open>h = q * (n - 1)\<close>, between the entries at \<open>floor h\<close> and the next one (the last entry
  when there is none). The quantile of an empty series is \<open>nan\<close>.
\<close>

definition interpolate :: "real list \<Rightarrow> real \<Rightarrow> real" where
  "interpolate s h =
     (let lo = nat \<lfloor>h\<rfloor>;
          hi = min (lo + 1) (length s - 1)
      in s ! lo + (s ! hi - s ! lo) * (h - real lo))"

definition quantile_interp :: "real list \<Rightarrow> real \<Rightarrow> val" where
  "quantile_interp xs q =
     (if xs = [] then NaN
      else Fin (interpolate (sort xs) (q * real (length xs - 1))))"

text \<open>\<^verbatim>\<open>quantile\<close> raises ValueError for a \<open>q\<close> outside \<open>[0, 1]\<close>.\<close>

definition quantile :: "real list \<Rightarrow> real \<Rightarrow> error + val" where
  "quantile xs q = (if q < 0 \<or> 1 < q then Inl ValueError else Inr (quantile_interp xs q))"

text \<open>Line 202: \<^verbatim>\<open>absdif = abs(results['Normal'] - results['Tumor'])\<close>.\<close>

definition absdif_of :: "cell list \<Rightarrow> real list" where
  "absdif_of results = map (\<lambda>c. \<bar>Normal c - Tumor c\<bar>) results"

text \<open>Lines 203-207 and 211-215: the column is True where \<^verbatim>\<open>absdif > quantile\<close>.\<close>

definition certain_mask :: "real list \<Rightarrow> val \<Rightarrow> bool list" where
  "certain_mask absdif qv = map (\<lambda>a. val_less qv (Fin a)) absdif"

subsection \<open>One diffusion step\<close>

text \<open>Line 216: the rows that are not certain are overwritten with \<open>0.000001\<close>.\<close>

definition mask_rows :: "bool list \<Rightarrow> row list \<Rightarrow> row list" where
  "mask_rows m P =
     map (\<lambda>(c, r). if c then r else (Fin (1 / 1000000), Fin (1 / 1000000))) (zip m P)"

definition dot_row :: "real list \<Rightarrow> val list \<Rightarrow> val" where
  "dot_row a v = foldr val_add (map (\<lambda>(w, x). val_scale w x) (zip a v)) (Fin 0)"

text \<open>Line 218: \<^verbatim>\<open>np.dot(connectivities, proba_tier_0.values)\<close>.\<close>

definition np_dot :: "real list list \<Rightarrow> row list \<Rightarrow> row list" where
  "np_dot A P = map (\<lambda>a. (dot_row a (map fst P), dot_row a (map snd P))) A"

text \<open>
  \<^verbatim>\<open>np.dot\<close> raises ValueError unless the matrix has as many columns as the table has
  rows, and the assignment of line 220 unless the product has as many rows as the table.
\<close>

definition shapes_ok :: "real list list \<Rightarrow> nat \<Rightarrow> bool" where
  "shapes_ok A n = (length A = n \<and> list_all (\<lambda>a. length a = n) A)"

definition row_sum :: "row \<Rightarrow> val" where
  "row_sum r = val_add (fst r) (snd r)"

text \<open>
  Line 219. \<^verbatim>\<open>connectivities\<close> is an \<^verbatim>\<open>np.matrix\<close> (both \<^verbatim>\<open>calculate_connectivities\<close> and
  \<^verbatim>\<open>load_connectivities\<close> return \<^verbatim>\<open>.todense()\<close>), so \<^verbatim>\<open>sum(axis=1)\<close> is a column and
  every row is divided by its own sum. Nothing is checked before the division.
\<close>

definition divide_row :: "row \<Rightarrow> row" where
  "divide_row r = (val_div (fst r) (row_sum r), val_div (snd r) (row_sum r))"

definition divide_rows :: "row list \<Rightarrow> row list" where
  "divide_rows M = map divide_row M"

text \<open>
  \<^verbatim>\<open>idxmax(axis=1)\<close> skips \<open>nan\<close>: pandas replaces every \<open>nan\<close> by \<open>-inf\<close>, takes the
  first position of the maximum, and returns \<open>nan\<close> for a row of \<open>nan\<close> only.
\<close>

definition fill_nan :: "val \<Rightarrow> val" where
  "fill_nan v = (if v = NaN then MInf else v)"

fun idxmax_row :: "row \<Rightarrow> label" where
  "idxmax_row (a, b) =
     (if a = NaN \<and> b = NaN then Label_NaN
      else if val_less (fill_nan a) (fill_nan b) then Label_Tumor
      else Label_Normal)"

definition idxmax :: "row list \<Rightarrow> label list" where
  "idxmax M = map idxmax_row M"

subsection \<open>Drift\<close>

text \<open>
  \<^verbatim>\<open>(current != pre).sum() / current.size\<close>. The comparison is elementwise, and \<open>nan\<close>
  differs from \<open>nan\<close>. The quotient of the numpy integer by the size \<open>0\<close> is \<open>nan\<close>.
\<close>

definition label_neq :: "label \<Rightarrow> label \<Rightarrow> bool" where
  "label_neq a b = (a \<noteq> b \<or> a = Label_NaN)"

definition drift :: "label list \<Rightarrow> label list \<Rightarrow> val" where
  "drift current p =
     (if current = [] then NaN
      else Fin (real (length (filter (\<lambda>(a, b). label_neq a b) (zip current p)))
                / real (length current)))"

text \<open>Reading the local variable \<^verbatim>\<open>pre\<close>: NameError while it is unbound.\<close>

definition read_pre :: "lp_state \<Rightarrow> error + label list" where
  "read_pre st = (case pre st of None \<Rightarrow> Inl NameError | Some p \<Rightarrow> Inr p)"

subsection \<open>The loop\<close>

text \<open>
  Lines 226-228, reached when line 225 did not break: the warning of the last iteration,
  then \<^verbatim>\<open>pre = current\<close>.
\<close>

definition warn_and_store ::
  "int \<Rightarrow> nat \<Rightarrow> label list \<Rightarrow> lp_state \<Rightarrow> error + (bool \<times> lp_state)" where
  "warn_and_store n_iter i current st =
     (if int i = n_iter - 1 then
        (case read_pre st of
           Inl e \<Rightarrow> Inl e
         | Inr p \<Rightarrow>
             Inr (False, st\<lparr>printed := printed st @ [drift current p], pre := Some current\<rparr>))
      else Inr (False, st\<lparr>pre := Some current\<rparr>))"

text \<open>
  The body of the loop, lines 210-228. The Boolean of the result says whether the body
  left the loop through \<^verbatim>\<open>break\<close>.
\<close>

definition lp_iteration ::
  "real list list \<Rightarrow> real list \<Rightarrow> int \<Rightarrow> real \<Rightarrow> nat \<Rightarrow> lp_state
     \<Rightarrow> error + (bool \<times> lp_state)" where
  "lp_iteration connectivities absdif n_iter certainty_threshold i st =
     (let certainty_threshold_pct = certainty_threshold * linspace_1_0 n_iter i in
      case quantile absdif certainty_threshold_pct of
        Inl e \<Rightarrow> Inl e
      | Inr qv \<Rightarrow>
          let col = certain_mask absdif qv;
              masked = mask_rows col (proba_tier_0 st)
          in if \<not> shapes_ok connectivities (length masked) then Inl ValueError
             else
               let lp_step_mtx = divide_rows (np_dot connectivities masked);
                   current = idxmax lp_step_mtx;
                   st1 = st\<lparr>proba_tier_0 := lp_step_mtx,
                            certain_cols := certain_cols st @ [col]\<rparr>
               in if \<not> i < 5 then
                    (case read_pre st1 of
                       Inl e \<Rightarrow> Inl e
                     | Inr p \<Rightarrow>
                         if val_less (drift current p) (Fin (1 / 1000)) then Inr (True, st1)
                         else warn_and_store n_iter i current st1)
                  else warn_and_store n_iter i current st1)"

fun lp_loop ::
  "real list list \<Rightarrow> real list \<Rightarrow> int \<Rightarrow> real \<Rightarrow> nat list \<Rightarrow> lp_state
     \<Rightarrow> error + lp_state" where
  "lp_loop connectivities absdif n_iter certainty_threshold [] st = Inr st"
| "lp_loop connectivities absdif n_iter certainty_threshold (i # rest) st =
     (case lp_iteration connectivities absdif n_iter certainty_threshold i st of
        Inl e \<Rightarrow> Inl e
      | Inr (stop, st') \<Rightarrow>
          if stop then Inr st'
          else lp_loop connectivities absdif n_iter certainty_threshold rest st')"

text \<open>Lines 196-199: the working matrix starts as the classifier's probabilities.\<close>

definition initial_proba :: "cell list \<Rightarrow> row list" where
  "initial_proba results = map (\<lambda>c. (Fin (LR_proba_Normal c), Fin (LR_proba_Tumor c))) results"

definition initial_state :: "cell list \<Rightarrow> lp_state" where
  "initial_state results =
     \<lparr>proba_tier_0 = initial_proba results, pre = None, certain_cols = [], printed = []\<rparr>"

text \<open>Lines 230-241.\<close>

definition assemble :: "bool list \<Rightarrow> lp_state \<Rightarrow> lp_result" where
  "assemble col st =
     \<lparr>certain = col,
      certain_i = certain_cols st,
      LR_with_label_propagation_tier_0_prediction = idxmax (proba_tier_0 st),
      LR_with_label_propagation_proba_Normal = map fst (proba_tier_0 st),
      LR_with_label_propagation_proba_Tumor = map snd (proba_tier_0 st),
      printed_warnings = printed st\<rparr>"

definition label_propagation ::
  "cell list \<Rightarrow> real list list \<Rightarrow> int \<Rightarrow> real \<Rightarrow> error + lp_result" where
  "label_propagation results connectivities n_iter certainty_threshold =
     (let absdif = absdif_of results in
      case quantile absdif certainty_threshold of
        Inl e \<Rightarrow> Inl e
      | Inr qv \<Rightarrow>
          (case lp_loop connectivities absdif n_iter certainty_threshold
                  [0 ..< nat n_iter] (initial_state results) of
             Inl e \<Rightarrow> Inl e
           | Inr st \<Rightarrow> Inr (assemble (certain_mask absdif qv) st)))"

subsection \<open>The values of the loop variables, iteration by iteration\<close>

text \<open>
  The working matrix does not depend on \<^verbatim>\<open>pre\<close> or on the warning, so the matrix that
  the loop holds after \<open>i\<close> iterations that did not break is a function of the inputs.
  The definitions below name the quantile level, the mask, the matrix, the assignment and
  the drift of iteration \<open>i\<close>; the lemmas of the next section show that the loop computes
  exactly these. The drift compares with the iteration before, so it is read for
  \<open>i \<ge> 1\<close> only.
\<close>

definition threshold_at :: "int \<Rightarrow> real \<Rightarrow> nat \<Rightarrow> real" where
  "threshold_at n_iter certainty_threshold i = certainty_threshold * linspace_1_0 n_iter i"

definition mask_at :: "real list \<Rightarrow> int \<Rightarrow> real \<Rightarrow> nat \<Rightarrow> bool list" where
  "mask_at absdif n_iter certainty_threshold i =
     certain_mask absdif (quantile_interp absdif (threshold_at n_iter certainty_threshold i))"

definition masked_at_step ::
  "real list \<Rightarrow> int \<Rightarrow> real \<Rightarrow> nat \<Rightarrow> row list \<Rightarrow> row list" where
  "masked_at_step absdif n_iter certainty_threshold i P =
     mask_rows (mask_at absdif n_iter certainty_threshold i) P"

definition lp_step ::
  "real list list \<Rightarrow> real list \<Rightarrow> int \<Rightarrow> real \<Rightarrow> nat \<Rightarrow> row list \<Rightarrow> row list" where
  "lp_step A absdif n_iter certainty_threshold i P =
     divide_rows (np_dot A (masked_at_step absdif n_iter certainty_threshold i P))"

fun working ::
  "cell list \<Rightarrow> real list list \<Rightarrow> int \<Rightarrow> real \<Rightarrow> nat \<Rightarrow> row list" where
  "working results A n_iter certainty_threshold 0 = initial_proba results"
| "working results A n_iter certainty_threshold (Suc i) =
     lp_step A (absdif_of results) n_iter certainty_threshold i
       (working results A n_iter certainty_threshold i)"

definition current_at ::
  "cell list \<Rightarrow> real list list \<Rightarrow> int \<Rightarrow> real \<Rightarrow> nat \<Rightarrow> label list" where
  "current_at results A n_iter certainty_threshold i =
     idxmax (working results A n_iter certainty_threshold (Suc i))"

definition drift_at ::
  "cell list \<Rightarrow> real list list \<Rightarrow> int \<Rightarrow> real \<Rightarrow> nat \<Rightarrow> val" where
  "drift_at results A n_iter certainty_threshold i =
     drift (current_at results A n_iter certainty_threshold i)
           (current_at results A n_iter certainty_threshold (i - 1))"

definition stops_early_at ::
  "cell list \<Rightarrow> real list list \<Rightarrow> int \<Rightarrow> real \<Rightarrow> nat \<Rightarrow> bool" where
  "stops_early_at results A n_iter certainty_threshold i =
     (5 \<le> i \<and> val_less (drift_at results A n_iter certainty_threshold i) (Fin (1 / 1000)))"

definition well_formed :: "cell list \<Rightarrow> real list list \<Rightarrow> int \<Rightarrow> real \<Rightarrow> bool" where
  "well_formed results A n_iter certainty_threshold =
     (0 \<le> certainty_threshold \<and> certainty_threshold \<le> 1 \<and> 2 \<le> n_iter
      \<and> shapes_ok A (length results))"

definition loop_inv ::
  "cell list \<Rightarrow> real list list \<Rightarrow> int \<Rightarrow> real \<Rightarrow> nat \<Rightarrow> lp_state \<Rightarrow> bool" where
  "loop_inv results A n_iter certainty_threshold k st =
     (proba_tier_0 st = working results A n_iter certainty_threshold k
      \<and> certain_cols st = map (mask_at (absdif_of results) n_iter certainty_threshold) [0 ..< k]
      \<and> pre st = (if k = 0 then None
                  else Some (current_at results A n_iter certainty_threshold (k - 1)))
      \<and> printed st = [])"

definition last_iteration ::
  "cell list \<Rightarrow> real list list \<Rightarrow> int \<Rightarrow> real \<Rightarrow> nat \<Rightarrow> bool" where
  "last_iteration results A n_iter certainty_threshold m =
     (m < nat n_iter
      \<and> (\<forall>i < m. \<not> stops_early_at results A n_iter certainty_threshold i)
      \<and> (stops_early_at results A n_iter certainty_threshold m \<or> int m = n_iter - 1))"

definition final_state ::
  "cell list \<Rightarrow> real list list \<Rightarrow> int \<Rightarrow> real \<Rightarrow> nat \<Rightarrow> lp_state \<Rightarrow> bool" where
  "final_state results A n_iter certainty_threshold m st =
     (proba_tier_0 st = working results A n_iter certainty_threshold (Suc m)
      \<and> certain_cols st
          = map (mask_at (absdif_of results) n_iter certainty_threshold) [0 ..< Suc m]
      \<and> printed st = (if stops_early_at results A n_iter certainty_threshold m then []
                      else [drift_at results A n_iter certainty_threshold m]))"

text \<open>
  The table that a run returns when its last iteration is \<open>m\<close>.
\<close>

definition run_result ::
  "cell list \<Rightarrow> real list list \<Rightarrow> int \<Rightarrow> real \<Rightarrow> nat \<Rightarrow> lp_result" where
  "run_result results A n_iter certainty_threshold m =
     \<lparr>certain = certain_mask (absdif_of results)
                  (quantile_interp (absdif_of results) certainty_threshold),
      certain_i = map (mask_at (absdif_of results) n_iter certainty_threshold) [0 ..< Suc m],
      LR_with_label_propagation_tier_0_prediction =
        current_at results A n_iter certainty_threshold m,
      LR_with_label_propagation_proba_Normal =
        map fst (working results A n_iter certainty_threshold (Suc m)),
      LR_with_label_propagation_proba_Tumor =
        map snd (working results A n_iter certainty_threshold (Suc m)),
      printed_warnings =
        (if stops_early_at results A n_iter certainty_threshold m then []
         else [drift_at results A n_iter certainty_threshold m])\<rparr>"

text \<open>
  The matrix after line 216 and the matrix after line 218 in iteration \<open>i\<close>.
\<close>

definition masked_at ::
  "cell list \<Rightarrow> real list list \<Rightarrow> int \<Rightarrow> real \<Rightarrow> nat \<Rightarrow> row list" where
  "masked_at results A n_iter certainty_threshold i =
     masked_at_step (absdif_of results) n_iter certainty_threshold i
       (working results A n_iter certainty_threshold i)"

definition propagated_at ::
  "cell list \<Rightarrow> real list list \<Rightarrow> int \<Rightarrow> real \<Rightarrow> nat \<Rightarrow> row list" where
  "propagated_at results A n_iter certainty_threshold i =
     np_dot A (masked_at results A n_iter certainty_threshold i)"

text \<open>
  The confidence as the specification words it (section 4.2), for comparison with
  \<open>absdif_of\<close>: the absolute difference of the two columns of the initial probability
  matrix, that is, of the classifier's probabilities.
\<close>

definition spec_confidence :: "cell list \<Rightarrow> real list" where
  "spec_confidence results = map (\<lambda>c. \<bar>LR_proba_Normal c - LR_proba_Tumor c\<bar>) results"

section \<open>The loop computes the iteration-wise values\<close>

lemma length_mask_rows: "length (mask_rows m P) = min (length m) (length P)"
  by (simp add: mask_rows_def)

lemma length_certain_mask: "length (certain_mask a q) = length a"
  by (simp add: certain_mask_def)

lemma length_lp_step: "length (lp_step A absdif n t i P) = length A"
  by (simp add: lp_step_def divide_rows_def np_dot_def)

lemma length_absdif_of: "length (absdif_of results) = length results"
  by (simp add: absdif_of_def)

lemma length_working:
  "shapes_ok A (length results) \<Longrightarrow> length (working results A n t k) = length results"
  by (cases k) (simp_all add: initial_proba_def length_lp_step shapes_ok_def)

lemma linspace_bounds:
  assumes "2 \<le> n" "i < nat n"
  shows "0 \<le> linspace_1_0 n i \<and> linspace_1_0 n i \<le> 1"
proof -
  have pos: "0 < real_of_int (n - 1)" using assms by simp
  have "real i \<le> real_of_int (n - 1)" using assms by linarith
  then have "real i / real_of_int (n - 1) \<le> 1" using pos by simp
  moreover have "0 \<le> real i / real_of_int (n - 1)" using pos by simp
  ultimately show ?thesis using assms by (simp add: linspace_1_0_def)
qed

lemma threshold_bounds:
  assumes "0 \<le> t" "t \<le> 1" "2 \<le> n" "i < nat n"
  shows "0 \<le> threshold_at n t i \<and> threshold_at n t i \<le> 1"
  using linspace_bounds [OF assms(3,4)] assms(1,2)
  by (simp add: threshold_at_def mult_le_one)

lemma quantile_in_range:
  assumes "0 \<le> t" "t \<le> 1" "2 \<le> n" "i < nat n"
  shows "quantile absdif (t * linspace_1_0 n i) = Inr (quantile_interp absdif (threshold_at n t i))"
  using threshold_bounds [OF assms] by (simp add: quantile_def threshold_at_def)

lemma lp_iteration_step:
  assumes wf: "well_formed results A n t"
    and k: "k < nat n"
    and inv: "loop_inv results A n t k st"
  shows "lp_iteration A (absdif_of results) n t k st =
     (let st1 = st\<lparr>proba_tier_0 := working results A n t (Suc k),
                    certain_cols := map (mask_at (absdif_of results) n t) [0 ..< Suc k]\<rparr>
      in if stops_early_at results A n t k then Inr (True, st1)
         else if int k = n - 1
           then Inr (False, st1\<lparr>printed := [drift_at results A n t k],
                                 pre := Some (current_at results A n t k)\<rparr>)
           else Inr (False, st1\<lparr>pre := Some (current_at results A n t k)\<rparr>))"
proof -
  from wf have t: "0 \<le> t" "t \<le> 1" and n: "2 \<le> n" and sh: "shapes_ok A (length results)"
    by (simp_all add: well_formed_def)
  have q: "quantile (absdif_of results) (t * linspace_1_0 n k)
             = Inr (quantile_interp (absdif_of results) (threshold_at n t k))"
    by (rule quantile_in_range [OF t n k])
  have len: "length (mask_rows (mask_at (absdif_of results) n t k) (proba_tier_0 st)) = length results"
    using inv length_working [OF sh, of n t k]
    by (simp add: length_mask_rows mask_at_def length_certain_mask length_absdif_of loop_inv_def)
  have step: "divide_rows (np_dot A (mask_rows (mask_at (absdif_of results) n t k) (proba_tier_0 st)))
                = working results A n t (Suc k)"
    using inv by (simp add: lp_step_def masked_at_step_def loop_inv_def)
  have cols: "certain_cols st @ [mask_at (absdif_of results) n t k]
                = map (mask_at (absdif_of results) n t) [0 ..< Suc k]"
    using inv by (simp add: loop_inv_def)
  show ?thesis
  proof (cases "k = 0")
    case True
    then have "\<not> int k = n - 1" using n by simp
    then show ?thesis
      using True q len step cols sh
      by (simp add: lp_iteration_def Let_def warn_and_store_def stops_early_at_def
                    mask_at_def [symmetric] current_at_def)
  next
    case False
    then have p: "pre st = Some (current_at results A n t (k - 1))"
      using inv by (simp add: loop_inv_def)
    have pr: "printed st = []" using inv by (simp add: loop_inv_def)
    show ?thesis
      using q len step cols sh p pr
      by (simp add: lp_iteration_def Let_def warn_and_store_def stops_early_at_def read_pre_def
                    mask_at_def [symmetric] current_at_def drift_at_def)
  qed
qed

lemma lp_loop_from:
  assumes wf: "well_formed results A n t"
  shows "k < nat n \<Longrightarrow> loop_inv results A n t k st \<Longrightarrow> d = nat n - k \<Longrightarrow>
     \<exists>m st'. lp_loop A (absdif_of results) n t [k ..< nat n] st = Inr st'
        \<and> k \<le> m \<and> m < nat n
        \<and> (\<forall>i. k \<le> i \<and> i < m \<longrightarrow> \<not> stops_early_at results A n t i)
        \<and> (stops_early_at results A n t m \<or> int m = n - 1)
        \<and> final_state results A n t m st'"
proof (induction d arbitrary: k st)
  case 0
  then show ?case by simp
next
  case (Suc d)
  let ?st1 = "st\<lparr>proba_tier_0 := working results A n t (Suc k),
                  certain_cols := map (mask_at (absdif_of results) n t) [0 ..< Suc k]\<rparr>"
  have it: "lp_iteration A (absdif_of results) n t k st =
     (if stops_early_at results A n t k then Inr (True, ?st1)
      else if int k = n - 1
        then Inr (False, ?st1\<lparr>printed := [drift_at results A n t k],
                               pre := Some (current_at results A n t k)\<rparr>)
        else Inr (False, ?st1\<lparr>pre := Some (current_at results A n t k)\<rparr>))"
    using lp_iteration_step [OF wf Suc.prems(1) Suc.prems(2)] by (simp add: Let_def)
  have upt: "[k ..< nat n] = k # [Suc k ..< nat n]"
    using Suc.prems(1) by (simp add: upt_conv_Cons)
  show ?case
  proof (cases "stops_early_at results A n t k")
    case True
    have "lp_loop A (absdif_of results) n t [k ..< nat n] st = Inr ?st1"
      using it True by (simp add: upt)
    moreover have "final_state results A n t k ?st1"
      using True Suc.prems(2) by (simp add: final_state_def loop_inv_def)
    moreover have "\<forall>i. k \<le> i \<and> i < k \<longrightarrow> \<not> stops_early_at results A n t i"
      by auto
    ultimately show ?thesis using True Suc.prems(1) by blast
  next
    case False
    show ?thesis
    proof (cases "int k = n - 1")
      case True
      let ?st2 = "?st1\<lparr>printed := [drift_at results A n t k],
                         pre := Some (current_at results A n t k)\<rparr>"
      from True have e: "[Suc k ..< nat n] = []" by simp
      have "lp_loop A (absdif_of results) n t [k ..< nat n] st = Inr ?st2"
        using it False True by (simp add: upt e)
      moreover have "final_state results A n t k ?st2"
        using False by (simp add: final_state_def)
      moreover have "\<forall>i. k \<le> i \<and> i < k \<longrightarrow> \<not> stops_early_at results A n t i"
        by auto
      ultimately show ?thesis using True Suc.prems(1) by blast
    next
      case nl: False
      let ?st2 = "?st1\<lparr>pre := Some (current_at results A n t k)\<rparr>"
      have k1: "Suc k < nat n" using nl Suc.prems(1) by linarith
      have inv2: "loop_inv results A n t (Suc k) ?st2"
        using Suc.prems(2) by (simp add: loop_inv_def)
      have d: "d = nat n - Suc k" using Suc.prems(3) by simp
      from Suc.IH [OF k1 inv2 d] obtain m st' where
        r: "lp_loop A (absdif_of results) n t [Suc k ..< nat n] ?st2 = Inr st'"
        and m: "Suc k \<le> m" "m < nat n"
        and ns: "\<forall>i. Suc k \<le> i \<and> i < m \<longrightarrow> \<not> stops_early_at results A n t i"
        and lst: "stops_early_at results A n t m \<or> int m = n - 1"
        and fin: "final_state results A n t m st'"
        by blast
      have "lp_loop A (absdif_of results) n t [k ..< nat n] st = Inr st'"
        using it False nl r by (simp add: upt)
      moreover have "\<forall>i. k \<le> i \<and> i < m \<longrightarrow> \<not> stops_early_at results A n t i"
      proof (intro allI impI)
        fix i assume "k \<le> i \<and> i < m"
        then have "i = k \<or> (Suc k \<le> i \<and> i < m)" by linarith
        then show "\<not> stops_early_at results A n t i" using False ns by blast
      qed
      moreover have "k \<le> m" using m(1) by simp
      ultimately show ?thesis using m(2) lst fin by blast
    qed
  qed
qed

lemma loop_inv_initial: "loop_inv results A n t 0 (initial_state results)"
  by (simp add: loop_inv_def initial_state_def)

lemma label_propagation_run:
  assumes wf: "well_formed results A n t"
  shows "\<exists>m. last_iteration results A n t m
     \<and> label_propagation results A n t =
         Inr \<lparr>certain = certain_mask (absdif_of results) (quantile_interp (absdif_of results) t),
              certain_i = map (mask_at (absdif_of results) n t) [0 ..< Suc m],
              LR_with_label_propagation_tier_0_prediction = current_at results A n t m,
              LR_with_label_propagation_proba_Normal = map fst (working results A n t (Suc m)),
              LR_with_label_propagation_proba_Tumor = map snd (working results A n t (Suc m)),
              printed_warnings = (if stops_early_at results A n t m then []
                                  else [drift_at results A n t m])\<rparr>"
proof -
  from wf have t: "0 \<le> t" "t \<le> 1" and n: "2 \<le> n" by (simp_all add: well_formed_def)
  have k: "0 < nat n" using n by simp
  from lp_loop_from [OF wf k loop_inv_initial refl] obtain m st' where
    r: "lp_loop A (absdif_of results) n t [0 ..< nat n] (initial_state results) = Inr st'"
    and m: "m < nat n"
    and ns: "\<forall>i. 0 \<le> i \<and> i < m \<longrightarrow> \<not> stops_early_at results A n t i"
    and lst: "stops_early_at results A n t m \<or> int m = n - 1"
    and fin: "final_state results A n t m st'"
    by blast
  have "last_iteration results A n t m" using m ns lst by (simp add: last_iteration_def)
  moreover have "label_propagation results A n t =
         Inr \<lparr>certain = certain_mask (absdif_of results) (quantile_interp (absdif_of results) t),
              certain_i = map (mask_at (absdif_of results) n t) [0 ..< Suc m],
              LR_with_label_propagation_tier_0_prediction = current_at results A n t m,
              LR_with_label_propagation_proba_Normal = map fst (working results A n t (Suc m)),
              LR_with_label_propagation_proba_Tumor = map snd (working results A n t (Suc m)),
              printed_warnings = (if stops_early_at results A n t m then []
                                  else [drift_at results A n t m])\<rparr>"
    using r fin t
    by (simp add: label_propagation_def Let_def quantile_def assemble_def final_state_def
                  current_at_def)
  ultimately show ?thesis by blast
qed

section \<open>The outcomes of a run\<close>

lemma lp_bad_threshold:
  "t < 0 \<or> 1 < t \<Longrightarrow> label_propagation results A n t = Inl ValueError"
  by (simp add: label_propagation_def quantile_def Let_def)

lemma lp_no_iteration:
  assumes "0 \<le> t" "t \<le> 1" "n \<le> 0"
  shows "label_propagation results A n t =
     Inr (assemble (certain_mask (absdif_of results) (quantile_interp (absdif_of results) t))
            (initial_state results))"
  using assms by (simp add: label_propagation_def quantile_def Let_def)

lemma linspace_first: "1 \<le> n \<Longrightarrow> linspace_1_0 n 0 = 1"
  by (simp add: linspace_1_0_def)

lemma first_iteration_masked_length:
  "length (mask_rows (certain_mask (absdif_of results) q) (initial_proba results))
     = length results"
  by (simp add: length_mask_rows length_certain_mask length_absdif_of initial_proba_def)

lemma lp_bad_shape:
  assumes "0 \<le> t" "t \<le> 1" "1 \<le> n" "\<not> shapes_ok A (length results)"
  shows "label_propagation results A n t = Inl ValueError"
proof -
  have upt: "[0 ..< nat n] = 0 # [1 ..< nat n]" using assms(3) by (simp add: upt_conv_Cons)
  have "lp_iteration A (absdif_of results) n t 0 (initial_state results) = Inl ValueError"
    using assms
    by (simp add: lp_iteration_def linspace_first quantile_def Let_def
                  first_iteration_masked_length initial_state_def)
  then show ?thesis
    using assms(1,2) by (simp add: label_propagation_def quantile_def Let_def upt)
qed

lemma lp_single_iteration:
  assumes "0 \<le> t" "t \<le> 1" "shapes_ok A (length results)"
  shows "label_propagation results A 1 t = Inl NameError"
proof -
  have "lp_iteration A (absdif_of results) 1 t 0 (initial_state results) = Inl NameError"
    using assms
    by (simp add: lp_iteration_def linspace_first quantile_def Let_def
                  first_iteration_masked_length warn_and_store_def read_pre_def
                  initial_state_def)
  then show ?thesis
    using assms(1,2) by (simp add: label_propagation_def quantile_def Let_def)
qed

lemma lp_returns_cases:
  assumes "label_propagation results A n t = Inr out"
  shows "0 \<le> t \<and> t \<le> 1 \<and> (n \<le> 0 \<or> well_formed results A n t)"
proof -
  have t: "0 \<le> t \<and> t \<le> 1"
    using assms lp_bad_threshold [of t results A n] by (cases "t < 0 \<or> 1 < t") auto
  have "well_formed results A n t" if "\<not> n \<le> 0"
  proof -
    have sh: "shapes_ok A (length results)"
      using assms t that lp_bad_shape [of t n A results] by (cases "shapes_ok A (length results)") auto
    have "n \<noteq> 1" using assms t sh lp_single_iteration [of t A results] by auto
    then show ?thesis using t sh that by (simp add: well_formed_def)
  qed
  then show ?thesis using t by blast
qed

section \<open>Quantiles grow with the level\<close>

lemma interpolate_bounds:
  assumes s: "sorted s" and h0: "0 \<le> h" and h1: "h \<le> real (length s - 1)" and ne: "s \<noteq> []"
  shows "s ! nat \<lfloor>h\<rfloor> \<le> interpolate s h"
    and "interpolate s h \<le> s ! min (nat \<lfloor>h\<rfloor> + 1) (length s - 1)"
proof -
  let ?lo = "nat \<lfloor>h\<rfloor>"
  let ?hi = "min (?lo + 1) (length s - 1)"
  have lo_le: "real ?lo \<le> h" using h0 by simp
  have w1: "h - real ?lo \<le> 1" using h0 by linarith
  have lo_len: "?lo \<le> length s - 1" using h1 h0 lo_le by linarith
  have "0 < length s" using ne by simp
  then have hi_len: "?hi < length s" by linarith
  have "?lo \<le> ?hi" using lo_len by simp
  then have d: "s ! ?lo \<le> s ! ?hi" using s hi_len by (simp add: sorted_nth_mono)
  have "0 \<le> (s ! ?hi - s ! ?lo) * (h - real ?lo)" using d lo_le by simp
  then show "s ! ?lo \<le> interpolate s h" by (simp add: interpolate_def Let_def)
  have "(s ! ?hi - s ! ?lo) * (h - real ?lo) \<le> (s ! ?hi - s ! ?lo) * 1"
    using d w1 by (intro mult_left_mono) simp_all
  then show "interpolate s h \<le> s ! ?hi" by (simp add: interpolate_def Let_def)
qed

lemma interpolate_mono:
  assumes s: "sorted s" and ne: "s \<noteq> []"
    and h0: "0 \<le> h1" and le: "h1 \<le> h2" and h2: "h2 \<le> real (length s - 1)"
  shows "interpolate s h1 \<le> interpolate s h2"
proof (cases "\<lfloor>h1\<rfloor> = \<lfloor>h2\<rfloor>")
  case True
  let ?lo = "nat \<lfloor>h1\<rfloor>"
  let ?hi = "min (?lo + 1) (length s - 1)"
  have lo_le: "real ?lo \<le> h1" using h0 by simp
  have lo_len: "?lo \<le> length s - 1" using h2 le h0 lo_le by linarith
  have "0 < length s" using ne by simp
  then have hi_len: "?hi < length s" by linarith
  have "?lo \<le> ?hi" using lo_len by simp
  then have d: "0 \<le> s ! ?hi - s ! ?lo" using s hi_len by (simp add: sorted_nth_mono)
  have "(s ! ?hi - s ! ?lo) * (h1 - real ?lo) \<le> (s ! ?hi - s ! ?lo) * (h2 - real ?lo)"
    using d le by (intro mult_left_mono) simp_all
  then show ?thesis using True by (simp add: interpolate_def Let_def)
next
  case False
  then have fl: "\<lfloor>h1\<rfloor> < \<lfloor>h2\<rfloor>" using le floor_mono [of h1 h2] by linarith
  have h20: "0 \<le> h2" using h0 le by simp
  have h11: "h1 \<le> real (length s - 1)" using le h2 by simp
  have lo2: "nat \<lfloor>h2\<rfloor> < length s"
  proof -
    have "real (nat \<lfloor>h2\<rfloor>) \<le> h2" using h20 by simp
    then have "nat \<lfloor>h2\<rfloor> \<le> length s - 1" using h2 by linarith
    then show ?thesis using ne by (cases s) simp_all
  qed
  have "0 \<le> \<lfloor>h1\<rfloor>" using h0 by simp
  then have "nat \<lfloor>h1\<rfloor> + 1 \<le> nat \<lfloor>h2\<rfloor>" using fl by linarith
  then have "min (nat \<lfloor>h1\<rfloor> + 1) (length s - 1) \<le> nat \<lfloor>h2\<rfloor>" by simp
  then have mid: "s ! min (nat \<lfloor>h1\<rfloor> + 1) (length s - 1) \<le> s ! nat \<lfloor>h2\<rfloor>"
    using s lo2 by (simp add: sorted_nth_mono)
  from interpolate_bounds(2) [OF s h0 h11 ne] mid interpolate_bounds(1) [OF s h20 h2 ne]
  show ?thesis by linarith
qed

lemma quantile_interp_mono:
  assumes "0 \<le> q1" "q1 \<le> q2" "q2 \<le> 1" "xs \<noteq> []"
  shows "\<exists>a b. quantile_interp xs q1 = Fin a \<and> quantile_interp xs q2 = Fin b \<and> a \<le> b"
proof -
  let ?N = "real (length xs - 1)"
  have ne: "sort xs \<noteq> []" using assms(4) by (metis length_sort length_0_conv)
  have "interpolate (sort xs) (q1 * ?N) \<le> interpolate (sort xs) (q2 * ?N)"
  proof (rule interpolate_mono [OF _ ne])
    show "sorted (sort xs)" by simp
    show "0 \<le> q1 * ?N" using assms(1) by simp
    show "q1 * ?N \<le> q2 * ?N" using assms(2) by (simp add: mult_right_mono)
    have "q2 * ?N \<le> 1 * ?N" using assms(3) by (intro mult_right_mono) simp_all
    then show "q2 * ?N \<le> real (length (sort xs) - 1)" by simp
  qed
  then show ?thesis using assms(4) by (simp add: quantile_interp_def)
qed

lemma certain_mask_mono:
  assumes "0 \<le> q1" "q1 \<le> q2" "q2 \<le> 1" "c < length absdif"
    and "certain_mask absdif (quantile_interp absdif q2) ! c"
  shows "certain_mask absdif (quantile_interp absdif q1) ! c"
proof -
  have ne: "absdif \<noteq> []" using assms(4) by auto
  from quantile_interp_mono [OF assms(1-3) ne] obtain a b where
    "quantile_interp absdif q1 = Fin a" "quantile_interp absdif q2 = Fin b" "a \<le> b" by blast
  then show ?thesis using assms(4,5) by (simp add: certain_mask_def)
qed

lemma threshold_at_antimono:
  assumes "0 \<le> t" "2 \<le> n" "i \<le> j"
  shows "threshold_at n t j \<le> threshold_at n t i"
proof -
  have pos: "0 < real_of_int (n - 1)" using assms(2) by simp
  have "real i / real_of_int (n - 1) \<le> real j / real_of_int (n - 1)"
    using assms(3) pos by (simp add: divide_right_mono)
  then have "linspace_1_0 n j \<le> linspace_1_0 n i" using assms(2) by (simp add: linspace_1_0_def)
  then show ?thesis using assms(1) by (simp add: threshold_at_def mult_left_mono)
qed

lemma mask_at_mono:
  assumes "0 \<le> t" "t \<le> 1" "2 \<le> n" "i \<le> j" "j < nat n" "c < length absdif"
    and "mask_at absdif n t i ! c"
  shows "mask_at absdif n t j ! c"
proof -
  have i: "i < nat n" using assms(4,5) by simp
  from threshold_bounds [OF assms(1-3) assms(5)] have j0: "0 \<le> threshold_at n t j" by simp
  from threshold_bounds [OF assms(1-3) i] have i1: "threshold_at n t i \<le> 1" by simp
  from threshold_at_antimono [OF assms(1) assms(3) assms(4)]
  have le: "threshold_at n t j \<le> threshold_at n t i" .
  show ?thesis
    using certain_mask_mono [OF j0 le i1 assms(6)] assms(7) by (simp add: mask_at_def)
qed

lemma threshold_at_first: "1 \<le> n \<Longrightarrow> threshold_at n t 0 = t"
  by (simp add: threshold_at_def linspace_1_0_def)

section \<open>Runs that return\<close>

lemma lp_returns_run:
  assumes r: "label_propagation results A n t = Inr out" and n: "0 < n"
  shows "well_formed results A n t
     \<and> (\<exists>m. last_iteration results A n t m \<and> out = run_result results A n t m)"
proof -
  from lp_returns_cases [OF r] n have wf: "well_formed results A n t" by simp
  from label_propagation_run [OF wf] r show ?thesis
    using wf by (auto simp: run_result_def)
qed

lemma working_Suc:
  "working results A n t (Suc i) = divide_rows (propagated_at results A n t i)"
  by (simp add: lp_step_def propagated_at_def masked_at_def)

lemma length_propagated_at: "length (propagated_at results A n t i) = length A"
  by (simp add: propagated_at_def np_dot_def)

text \<open>Unfolding the definitions on concrete inputs.\<close>

lemmas lp_eval =
  label_propagation_def absdif_of_def quantile_def quantile_interp_def interpolate_def
  certain_mask_def initial_state_def initial_proba_def lp_iteration_def linspace_1_0_def
  mask_rows_def shapes_ok_def divide_rows_def divide_row_def row_sum_def np_dot_def
  dot_row_def idxmax_def fill_nan_def read_pre_def warn_and_store_def drift_def label_neq_def
  assemble_def Let_def

lemmas trace_eval =
  drift_at_def current_at_def lp_step_def masked_at_step_def mask_at_def threshold_at_def
  eval_nat_numeral

section \<open>Division of a row by its sum\<close>

lemma divide_row_zero_sum:
  assumes "row_sum r = Fin 0"
  shows "\<not> is_fin (fst (divide_row r)) \<and> \<not> is_fin (snd (divide_row r))"
proof -
  obtain a b where r: "r = (a, b)" by (cases r)
  from assms r obtain x y where "a = Fin x" "b = Fin y" "x + y = 0"
    by (cases a; cases b) (simp_all add: row_sum_def)
  then show ?thesis using r by (simp add: divide_row_def row_sum_def)
qed

lemma divide_row_sum:
  assumes "row_sum r = Fin s" "s \<noteq> 0"
  shows "row_sum (divide_row r) = Fin 1"
proof -
  obtain a b where r: "r = (a, b)" by (cases r)
  from assms r obtain x y where ab: "a = Fin x" "b = Fin y" "x + y = s"
    by (cases a; cases b) (simp_all add: row_sum_def)
  have "x / s + y / s = 1" using ab(3) assms(2) by (simp add: add_divide_distrib [symmetric])
  then show ?thesis using r ab assms(2) by (simp add: divide_row_def row_sum_def)
qed

lemma lp_iteration_fields:
  assumes "lp_iteration A absdif n t i st = Inr (stop, st')"
  shows "proba_tier_0 st' =
           divide_rows (np_dot A (mask_rows (certain_mask absdif
              (quantile_interp absdif (t * linspace_1_0 n i))) (proba_tier_0 st)))"
    and "certain_cols st' = certain_cols st @
           [certain_mask absdif (quantile_interp absdif (t * linspace_1_0 n i))]"
  using assms
  by (auto simp: lp_iteration_def quantile_def Let_def warn_and_store_def read_pre_def
           split: if_splits sum.splits option.splits)

section \<open>The thresholds and the columns of the returned table\<close>

lemma threshold_at_formula:
  assumes "2 \<le> n"
  shows "threshold_at n t i = t * (1 - real i / real_of_int (n - 1))"
  using assms by (simp add: threshold_at_def linspace_1_0_def)

lemma threshold_at_last:
  assumes "2 \<le> n"
  shows "threshold_at n t (nat (n - 1)) = 0"
proof -
  have "real (nat (n - 1)) = real_of_int (n - 1)" using assms by simp
  moreover have "real_of_int (n - 1) \<noteq> 0" using assms by simp
  ultimately show ?thesis using assms by (simp add: threshold_at_def linspace_1_0_def)
qed

lemma run_result_column:
  "i \<le> m \<Longrightarrow> certain_i (run_result results A n t m) ! i = mask_at (absdif_of results) n t i"
proof -
  assume "i \<le> m"
  then have "i < length [0 ..< Suc m]" by simp
  then have "map (mask_at (absdif_of results) n t) [0 ..< Suc m] ! i
               = mask_at (absdif_of results) n t ([0 ..< Suc m] ! i)"
    by (rule nth_map)
  also have "[0 ..< Suc m] ! i = i" using \<open>i \<le> m\<close> by (metis add_0 less_Suc_eq_le nth_upt)
  finally show ?thesis by (simp add: run_result_def)
qed

lemma run_result_length: "length (certain_i (run_result results A n t m)) = Suc m"
  by (simp add: run_result_def)

lemma run_result_certain:
  "certain (run_result results A n t m)
     = certain_mask (absdif_of results) (quantile_interp (absdif_of results) t)"
  by (simp add: run_result_def)

lemma mask_rows_nth:
  assumes "c < length m" "c < length P"
  shows "mask_rows m P ! c = (if m ! c then P ! c else (Fin (1 / 1000000), Fin (1 / 1000000)))"
  using assms by (simp add: mask_rows_def)

lemma length_mask_at: "length (mask_at absdif n t i) = length absdif"
  by (simp add: mask_at_def length_certain_mask)

section \<open>Properties\<close>

text \<open>
  C10. With \<open>n_iter = 1\<close> the function returns no result: for a threshold in \<open>[0, 1]\<close>
  and a square matrix of the table's size, iteration 0 is the last one, so line 227 reads
  \<^verbatim>\<open>pre\<close> before line 228 has ever assigned it, and the run ends in NameError. With
  \<open>n_iter \<ge> 2\<close> no run ends in NameError.
\<close>

theorem name_error_iff_single_iteration:
  "(n_iter = 1 \<longrightarrow>
      (\<exists>e. label_propagation results A n_iter certainty_threshold = Inl e)
      \<and> (0 \<le> certainty_threshold \<and> certainty_threshold \<le> 1 \<and> shapes_ok A (length results)
           \<longrightarrow> label_propagation results A n_iter certainty_threshold = Inl NameError))
   \<and> (2 \<le> n_iter \<longrightarrow> label_propagation results A n_iter certainty_threshold \<noteq> Inl NameError)"
proof (intro conjI impI)
  assume n: "n_iter = 1"
  show "\<exists>e. label_propagation results A n_iter certainty_threshold = Inl e"
  proof (cases "label_propagation results A n_iter certainty_threshold")
    case (Inl e)
    then show ?thesis by blast
  next
    case (Inr out)
    from lp_returns_cases [OF Inr] n show ?thesis by (simp add: well_formed_def)
  qed
next
  assume "n_iter = 1"
    and "0 \<le> certainty_threshold \<and> certainty_threshold \<le> 1 \<and> shapes_ok A (length results)"
  then show "label_propagation results A n_iter certainty_threshold = Inl NameError"
    by (simp add: lp_single_iteration)
next
  assume n: "2 \<le> n_iter"
  show "label_propagation results A n_iter certainty_threshold \<noteq> Inl NameError"
  proof (cases "certainty_threshold < 0 \<or> 1 < certainty_threshold")
    case True
    then show ?thesis by (simp add: lp_bad_threshold)
  next
    case t: False
    show ?thesis
    proof (cases "shapes_ok A (length results)")
      case True
      then have "well_formed results A n_iter certainty_threshold"
        using t n by (simp add: well_formed_def)
      from label_propagation_run [OF this] show ?thesis by auto
    next
      case False
      then show ?thesis using t n lp_bad_shape [of certainty_threshold n_iter A results] by simp
    qed
  qed
qed

theorem name_error_iff_single_iteration_witness:
  "label_propagation
      [\<lparr>Normal = 1, Tumor = 0, LR_proba_Normal = 9 / 10, LR_proba_Tumor = 1 / 10\<rparr>]
      [[1]] 1 (1 / 2) = Inl NameError
   \<and> label_propagation
      [\<lparr>Normal = 1, Tumor = 0, LR_proba_Normal = 9 / 10, LR_proba_Tumor = 1 / 10\<rparr>]
      [[1]] 2 (1 / 2) \<noteq> Inl NameError"
  using name_error_iff_single_iteration [of 1
          "[\<lparr>Normal = 1, Tumor = 0, LR_proba_Normal = 9 / 10, LR_proba_Tumor = 1 / 10\<rparr>]"
          "[[1]]" "1 / 2"]
        name_error_iff_single_iteration [of 2
          "[\<lparr>Normal = 1, Tumor = 0, LR_proba_Normal = 9 / 10, LR_proba_Tumor = 1 / 10\<rparr>]"
          "[[1]]" "1 / 2"]
  by (simp add: shapes_ok_def)

text \<open>
  C1, as the code has it. The guard of line 223 is \<^verbatim>\<open>not i < 5\<close>, so iterations 0 to 4
  never stop early: a run that ends at an iteration \<open>m < 5\<close> has used its whole budget.
  From iteration 5 on, an iteration that the loop reaches with a drift below \<open>0.001\<close> is
  the last one and prints no warning. With a budget of at least 6 and zero drift at
  iteration 5 the run ends at iteration 5 without warning. The number of columns
  \<^verbatim>\<open>certain{i}\<close> of the returned table is the number of iterations that were started.
\<close>

theorem early_stop_from_iteration_5:
  assumes r: "label_propagation results A n_iter certainty_threshold = Inr out"
    and n: "0 < n_iter"
  shows "\<exists>m. length (certain_i out) = Suc m
     \<and> (m < 5 \<longrightarrow> int m = n_iter - 1)
     \<and> (\<forall>i. 5 \<le> i \<and> i \<le> m
            \<and> val_less (drift_at results A n_iter certainty_threshold i) (Fin (1 / 1000))
          \<longrightarrow> i = m \<and> printed_warnings out = [])
     \<and> (6 \<le> n_iter \<and> drift_at results A n_iter certainty_threshold 5 = Fin 0
          \<longrightarrow> m = 5 \<and> printed_warnings out = [])"
proof -
  from lp_returns_run [OF r n] obtain m where
    li: "last_iteration results A n_iter certainty_threshold m"
    and out: "out = run_result results A n_iter certainty_threshold m" by blast
  have len: "length (certain_i out) = Suc m" by (simp add: out run_result_def)
  have small: "int m = n_iter - 1" if "m < 5"
    using li that by (simp add: last_iteration_def stops_early_at_def)
  have stop: "i = m \<and> printed_warnings out = []"
    if "5 \<le> i \<and> i \<le> m
        \<and> val_less (drift_at results A n_iter certainty_threshold i) (Fin (1 / 1000))" for i
  proof -
    from that have s: "stops_early_at results A n_iter certainty_threshold i"
      by (simp add: stops_early_at_def)
    have "\<not> i < m" using li s by (auto simp: last_iteration_def)
    then have "i = m" using that by simp
    then show ?thesis using s by (simp add: out run_result_def)
  qed
  have zero: "m = 5 \<and> printed_warnings out = []"
    if z: "6 \<le> n_iter \<and> drift_at results A n_iter certainty_threshold 5 = Fin 0"
  proof -
    have "5 \<le> m" using small z by (cases "m < 5") simp_all
    then show ?thesis using stop [of 5] z by simp
  qed
  show ?thesis using len small stop zero by blast
qed

theorem early_stop_from_iteration_5_witness:
  "label_propagation
      [\<lparr>Normal = 1, Tumor = 0, LR_proba_Normal = 9 / 10, LR_proba_Tumor = 1 / 10\<rparr>]
      [[1]] 10 (1 / 2) =
     Inr \<lparr>certain = [False],
          certain_i = [[False], [False], [False], [False], [False], [False]],
          LR_with_label_propagation_tier_0_prediction = [Label_Normal],
          LR_with_label_propagation_proba_Normal = [Fin (1 / 2)],
          LR_with_label_propagation_proba_Tumor = [Fin (1 / 2)],
          printed_warnings = []\<rparr>
   \<and> drift_at
        [\<lparr>Normal = 1, Tumor = 0, LR_proba_Normal = 9 / 10, LR_proba_Tumor = 1 / 10\<rparr>]
        [[1]] 10 (1 / 2) 5 = Fin 0"
proof -
  have r: "label_propagation
      [\<lparr>Normal = 1, Tumor = 0, LR_proba_Normal = 9 / 10, LR_proba_Tumor = 1 / 10\<rparr>]
      [[1]] 10 (1 / 2) =
     Inr \<lparr>certain = [False],
          certain_i = [[False], [False], [False], [False], [False], [False]],
          LR_with_label_propagation_tier_0_prediction = [Label_Normal],
          LR_with_label_propagation_proba_Normal = [Fin (1 / 2)],
          LR_with_label_propagation_proba_Tumor = [Fin (1 / 2)],
          printed_warnings = []\<rparr>"
    by (simp add: lp_eval upt_conv_Cons)
  have n: "(0::int) < 10" by simp
  have d: "drift_at
        [\<lparr>Normal = 1, Tumor = 0, LR_proba_Normal = 9 / 10, LR_proba_Tumor = 1 / 10\<rparr>]
        [[1]] 10 (1 / 2) 5 = Fin 0"
    by (simp add: lp_eval trace_eval)
  show ?thesis using r d early_stop_from_iteration_5 [OF r n] by simp
qed

text \<open>
  C1 as stated fails: one cell that is never certain keeps the assignment \<open>Normal\<close>, so
  the drift of iteration 4 is \<open>0\<close>, and still the run goes on to iteration 5 (six
  columns \<^verbatim>\<open>certain0\<close> to \<^verbatim>\<open>certain5\<close>).
\<close>

theorem early_stop_at_iteration_4_counterexample:
  "val_less
     (drift_at
        [\<lparr>Normal = 1, Tumor = 0, LR_proba_Normal = 9 / 10, LR_proba_Tumor = 1 / 10\<rparr>]
        [[1]] 10 (1 / 2) 4)
     (Fin (1 / 1000))
   \<and> label_propagation
        [\<lparr>Normal = 1, Tumor = 0, LR_proba_Normal = 9 / 10, LR_proba_Tumor = 1 / 10\<rparr>]
        [[1]] 10 (1 / 2) =
       Inr \<lparr>certain = [False],
            certain_i = [[False], [False], [False], [False], [False], [False]],
            LR_with_label_propagation_tier_0_prediction = [Label_Normal],
            LR_with_label_propagation_proba_Normal = [Fin (1 / 2)],
            LR_with_label_propagation_proba_Tumor = [Fin (1 / 2)],
            printed_warnings = []\<rparr>"
  by (simp add: lp_eval trace_eval upt_conv_Cons)

text \<open>
  C8. With a budget of one iteration the last iteration is iteration 0; no early stop is
  triggered, and the warning of line 227 reads \<^verbatim>\<open>pre\<close> before any assignment: the run
  ends in NameError instead of printing the warning and returning the table.
\<close>

theorem single_iteration_raises_name_error:
  "label_propagation
      [\<lparr>Normal = 4 / 5, Tumor = 1 / 10, LR_proba_Normal = 9 / 10, LR_proba_Tumor = 1 / 10\<rparr>,
       \<lparr>Normal = 2 / 5, Tumor = 1 / 2, LR_proba_Normal = 2 / 5, LR_proba_Tumor = 3 / 5\<rparr>]
      [[1, 1 / 2], [1 / 2, 1]] 1 (1 / 2) = Inl NameError"
  by (simp add: lp_eval upt_conv_Cons)

text \<open>
  C9, as the code has it. Nothing validates the configuration. A threshold outside
  \<open>[0, 1]\<close> is rejected by the first quantile of line 205, with ValueError; a budget
  \<open>n_iter < 1\<close> is accepted: the loop body never runs and the table carries the
  classifier's own probabilities and their argmax.
\<close>

theorem configuration_checks:
  "(certainty_threshold < 0 \<or> 1 < certainty_threshold \<longrightarrow>
      label_propagation results A n_iter certainty_threshold = Inl ValueError)
   \<and> (0 \<le> certainty_threshold \<and> certainty_threshold \<le> 1 \<and> n_iter < 1 \<longrightarrow>
      label_propagation results A n_iter certainty_threshold =
        Inr \<lparr>certain = certain_mask (absdif_of results)
                         (quantile_interp (absdif_of results) certainty_threshold),
             certain_i = [],
             LR_with_label_propagation_tier_0_prediction = idxmax (initial_proba results),
             LR_with_label_propagation_proba_Normal = map (\<lambda>c. Fin (LR_proba_Normal c)) results,
             LR_with_label_propagation_proba_Tumor = map (\<lambda>c. Fin (LR_proba_Tumor c)) results,
             printed_warnings = []\<rparr>)"
proof (intro conjI impI)
  assume "certainty_threshold < 0 \<or> 1 < certainty_threshold"
  then show "label_propagation results A n_iter certainty_threshold = Inl ValueError"
    by (rule lp_bad_threshold)
next
  assume a: "0 \<le> certainty_threshold \<and> certainty_threshold \<le> 1 \<and> n_iter < 1"
  then have "n_iter \<le> 0" by simp
  with a show "label_propagation results A n_iter certainty_threshold =
        Inr \<lparr>certain = certain_mask (absdif_of results)
                         (quantile_interp (absdif_of results) certainty_threshold),
             certain_i = [],
             LR_with_label_propagation_tier_0_prediction = idxmax (initial_proba results),
             LR_with_label_propagation_proba_Normal = map (\<lambda>c. Fin (LR_proba_Normal c)) results,
             LR_with_label_propagation_proba_Tumor = map (\<lambda>c. Fin (LR_proba_Tumor c)) results,
             printed_warnings = []\<rparr>"
    by (simp add: lp_no_iteration assemble_def initial_state_def initial_proba_def comp_def)
qed

theorem configuration_checks_witness:
  "label_propagation
      [\<lparr>Normal = 1, Tumor = 0, LR_proba_Normal = 9 / 10, LR_proba_Tumor = 1 / 10\<rparr>]
      [[1]] 6 (3 / 2) = Inl ValueError
   \<and> label_propagation
      [\<lparr>Normal = 1, Tumor = 0, LR_proba_Normal = 9 / 10, LR_proba_Tumor = 1 / 10\<rparr>]
      [[1]] (- 2) (1 / 2) =
     Inr \<lparr>certain = [False],
          certain_i = [],
          LR_with_label_propagation_tier_0_prediction = [Label_Normal],
          LR_with_label_propagation_proba_Normal = [Fin (9 / 10)],
          LR_with_label_propagation_proba_Tumor = [Fin (1 / 10)],
          printed_warnings = []\<rparr>"
  using configuration_checks [of "3 / 2"
          "[\<lparr>Normal = 1, Tumor = 0, LR_proba_Normal = 9 / 10, LR_proba_Tumor = 1 / 10\<rparr>]"
          "[[1]]" 6]
        configuration_checks [of "1 / 2"
          "[\<lparr>Normal = 1, Tumor = 0, LR_proba_Normal = 9 / 10, LR_proba_Tumor = 1 / 10\<rparr>]"
          "[[1]]" "- 2"]
  by (simp add: lp_eval)

text \<open>
  C9 as stated fails: a run with \<open>n_iter = 0\<close> is not rejected, it returns a table.
\<close>

theorem zero_iterations_accepted_counterexample:
  "label_propagation
      [\<lparr>Normal = 1, Tumor = 0, LR_proba_Normal = 9 / 10, LR_proba_Tumor = 1 / 10\<rparr>]
      [[1]] 0 (1 / 2) =
     Inr \<lparr>certain = [False],
          certain_i = [],
          LR_with_label_propagation_tier_0_prediction = [Label_Normal],
          LR_with_label_propagation_proba_Normal = [Fin (9 / 10)],
          LR_with_label_propagation_proba_Tumor = [Fin (1 / 10)],
          printed_warnings = []\<rparr>"
  by (simp add: lp_eval)

text \<open>
  C4, as the code has it. Whatever the state an iteration of the loop starts from, if the
  iteration does not raise, every row whose sum before the division of line 219 is a finite
  number other than zero sums to \<open>1\<close> in the matrix that the iteration leaves in
  \<^verbatim>\<open>proba_tier_0\<close>. In exact arithmetic the sum is \<open>1\<close>, not only close to it. A row
  whose sum is \<open>nan\<close> or infinite is not covered.
\<close>

theorem renormalized_rows_sum_to_one:
  assumes "lp_iteration A absdif n_iter certainty_threshold i st = Inr (stop, st')"
    and "c < length A"
    and "row_sum (np_dot A (mask_rows (certain_mask absdif
            (quantile_interp absdif (certainty_threshold * linspace_1_0 n_iter i)))
            (proba_tier_0 st)) ! c) = Fin s"
    and "s \<noteq> 0"
  shows "row_sum (proba_tier_0 st' ! c) = Fin 1"
proof -
  let ?M = "np_dot A (mask_rows (certain_mask absdif
            (quantile_interp absdif (certainty_threshold * linspace_1_0 n_iter i)))
            (proba_tier_0 st))"
  have len: "c < length ?M" using assms(2) by (simp add: np_dot_def)
  have "proba_tier_0 st' = divide_rows ?M" by (rule lp_iteration_fields(1) [OF assms(1)])
  then have "proba_tier_0 st' ! c = divide_row (?M ! c)" using len by (simp add: divide_rows_def)
  then show ?thesis using divide_row_sum [OF assms(3,4)] by simp
qed

theorem renormalized_rows_sum_to_one_witness:
  "lp_iteration [[1, 0], [0, 1]] [1, 0] 2 (1 / 2) 0
      \<lparr>proba_tier_0 = [(Fin (9 / 10), Fin (1 / 10)), (Fin (2 / 5), Fin (3 / 5))],
       pre = None, certain_cols = [], printed = []\<rparr>
     = Inr (False,
        \<lparr>proba_tier_0 = [(Fin (9 / 10), Fin (1 / 10)), (Fin (1 / 2), Fin (1 / 2))],
         pre = Some [Label_Normal, Label_Normal], certain_cols = [[True, False]],
         printed = []\<rparr>)
   \<and> row_sum (np_dot [[1, 0], [0, 1]] (mask_rows (certain_mask [1, 0]
          (quantile_interp [1, 0] (1 / 2 * linspace_1_0 2 0)))
          [(Fin (9 / 10), Fin (1 / 10)), (Fin (2 / 5), Fin (3 / 5))]) ! 1) = Fin (1 / 500000)
   \<and> row_sum ((Fin (1 / 2), Fin (1 / 2))) = Fin 1"
proof -
  have it: "lp_iteration [[1, 0], [0, 1]] [1, 0] 2 (1 / 2) 0
      \<lparr>proba_tier_0 = [(Fin (9 / 10), Fin (1 / 10)), (Fin (2 / 5), Fin (3 / 5))],
       pre = None, certain_cols = [], printed = []\<rparr>
     = Inr (False,
        \<lparr>proba_tier_0 = [(Fin (9 / 10), Fin (1 / 10)), (Fin (1 / 2), Fin (1 / 2))],
         pre = Some [Label_Normal, Label_Normal], certain_cols = [[True, False]],
         printed = []\<rparr>)"
    by (simp add: lp_eval)
  have c: "1 < length [[1, 0], [0, 1 :: real]]" by simp
  have s: "row_sum (np_dot [[1, 0], [0, 1]] (mask_rows (certain_mask [1, 0]
          (quantile_interp [1, 0] (1 / 2 * linspace_1_0 2 0)))
          (proba_tier_0 \<lparr>proba_tier_0 = [(Fin (9 / 10), Fin (1 / 10)), (Fin (2 / 5), Fin (3 / 5))],
             pre = None, certain_cols = [], printed = []\<rparr>)) ! 1) = Fin (1 / 500000)"
    by (simp add: lp_eval)
  have nz: "(1 / 500000 :: real) \<noteq> 0" by simp
  show ?thesis using it s renormalized_rows_sum_to_one [OF it c s nz] by simp
qed

text \<open>
  C4 as stated fails: the second cell is certain and has no neighbour of non-zero weight,
  so iteration 0 leaves \<open>nan\<close> in its row. In iteration 1 the row is kept by the mask, the
  product of line 218 gives the first cell \<open>0.000001 + nan\<close>, and the first row has the sum
  \<open>nan\<close> before the division: a sum that is not zero, and a row that does not sum to \<open>1\<close>
  after it.
\<close>

theorem nan_row_sum_counterexample:
  "lp_iteration [[1, 1], [0, 0]] [0, 1] 2 (1 / 2) 0
      (initial_state
        [\<lparr>Normal = 1 / 2, Tumor = 1 / 2, LR_proba_Normal = 2 / 5, LR_proba_Tumor = 3 / 5\<rparr>,
         \<lparr>Normal = 1, Tumor = 0, LR_proba_Normal = 9 / 10, LR_proba_Tumor = 1 / 10\<rparr>])
     = Inr (False,
        \<lparr>proba_tier_0 = [(Fin (900001 / 1000002), Fin (100001 / 1000002)), (NaN, NaN)],
         pre = Some [Label_Normal, Label_NaN], certain_cols = [[False, True]],
         printed = []\<rparr>)
   \<and> lp_iteration [[1, 1], [0, 0]] [0, 1] 2 (1 / 2) 1
        \<lparr>proba_tier_0 = [(Fin (900001 / 1000002), Fin (100001 / 1000002)), (NaN, NaN)],
         pre = Some [Label_Normal, Label_NaN], certain_cols = [[False, True]],
         printed = []\<rparr>
     = Inr (False,
        \<lparr>proba_tier_0 = [(NaN, NaN), (NaN, NaN)],
         pre = Some [Label_NaN, Label_NaN], certain_cols = [[False, True], [False, True]],
         printed = [Fin 1]\<rparr>)
   \<and> row_sum (np_dot [[1, 1], [0, 0]] (mask_rows (certain_mask [0, 1]
          (quantile_interp [0, 1] (1 / 2 * linspace_1_0 2 1)))
          [(Fin (900001 / 1000002), Fin (100001 / 1000002)), (NaN, NaN)]) ! 0) = NaN
   \<and> row_sum (NaN, NaN) = NaN
   \<and> label_propagation
        [\<lparr>Normal = 1 / 2, Tumor = 1 / 2, LR_proba_Normal = 2 / 5, LR_proba_Tumor = 3 / 5\<rparr>,
         \<lparr>Normal = 1, Tumor = 0, LR_proba_Normal = 9 / 10, LR_proba_Tumor = 1 / 10\<rparr>]
        [[1, 1], [0, 0]] 2 (1 / 2) =
       Inr \<lparr>certain = [False, True],
            certain_i = [[False, True], [False, True]],
            LR_with_label_propagation_tier_0_prediction = [Label_NaN, Label_NaN],
            LR_with_label_propagation_proba_Normal = [NaN, NaN],
            LR_with_label_propagation_proba_Tumor = [NaN, NaN],
            printed_warnings = [Fin 1]\<rparr>"
  by (simp add: lp_eval upt_conv_Cons)

text \<open>
  C5, as the code has it. Nothing looks at the row sums before line 219 divides by them.
  A run on well-formed inputs (threshold in \<open>[0, 1]\<close>, at least two iterations, a square
  matrix of the table's size) always returns a table and raises no error; in every
  iteration a row whose sum is zero is divided by zero and both its entries become \<open>nan\<close>
  or infinite, and the matrix of the last iteration is what the table returns.
\<close>

theorem zero_row_sum_not_detected:
  assumes "well_formed results A n_iter certainty_threshold"
  shows "\<exists>m. label_propagation results A n_iter certainty_threshold
               = Inr (run_result results A n_iter certainty_threshold m)
     \<and> (\<forall>i c. c < length results
            \<and> row_sum (propagated_at results A n_iter certainty_threshold i ! c) = Fin 0
          \<longrightarrow> \<not> is_fin (fst (working results A n_iter certainty_threshold (Suc i) ! c))
            \<and> \<not> is_fin (snd (working results A n_iter certainty_threshold (Suc i) ! c)))
     \<and> LR_with_label_propagation_proba_Normal (run_result results A n_iter certainty_threshold m)
         = map fst (working results A n_iter certainty_threshold (Suc m))
     \<and> LR_with_label_propagation_proba_Tumor (run_result results A n_iter certainty_threshold m)
         = map snd (working results A n_iter certainty_threshold (Suc m))"
proof -
  from assms have sh: "length A = length results" by (simp add: well_formed_def shapes_ok_def)
  from label_propagation_run [OF assms] obtain m where
    r: "label_propagation results A n_iter certainty_threshold
          = Inr (run_result results A n_iter certainty_threshold m)"
    by (auto simp: run_result_def)
  have z: "\<not> is_fin (fst (working results A n_iter certainty_threshold (Suc i) ! c))
         \<and> \<not> is_fin (snd (working results A n_iter certainty_threshold (Suc i) ! c))"
    if "c < length results
        \<and> row_sum (propagated_at results A n_iter certainty_threshold i ! c) = Fin 0" for i c
  proof -
    from that sh have "c < length (propagated_at results A n_iter certainty_threshold i)"
      by (simp add: length_propagated_at)
    then have "working results A n_iter certainty_threshold (Suc i) ! c
                 = divide_row (propagated_at results A n_iter certainty_threshold i ! c)"
      by (simp add: working_Suc divide_rows_def del: working.simps)
    then show ?thesis using divide_row_zero_sum that by simp
  qed
  show ?thesis using r z by (intro exI [of _ m]) (simp add: run_result_def del: working.simps)
qed

theorem zero_row_sum_not_detected_witness:
  "well_formed
      [\<lparr>Normal = 1, Tumor = 0, LR_proba_Normal = 9 / 10, LR_proba_Tumor = 1 / 10\<rparr>,
       \<lparr>Normal = 1 / 2, Tumor = 1 / 2, LR_proba_Normal = 2 / 5, LR_proba_Tumor = 3 / 5\<rparr>]
      [[1, 0], [0, 0]] 2 (1 / 2)
   \<and> row_sum (propagated_at
      [\<lparr>Normal = 1, Tumor = 0, LR_proba_Normal = 9 / 10, LR_proba_Tumor = 1 / 10\<rparr>,
       \<lparr>Normal = 1 / 2, Tumor = 1 / 2, LR_proba_Normal = 2 / 5, LR_proba_Tumor = 3 / 5\<rparr>]
      [[1, 0], [0, 0]] 2 (1 / 2) 0 ! 1) = Fin 0
   \<and> \<not> is_fin (fst (working
      [\<lparr>Normal = 1, Tumor = 0, LR_proba_Normal = 9 / 10, LR_proba_Tumor = 1 / 10\<rparr>,
       \<lparr>Normal = 1 / 2, Tumor = 1 / 2, LR_proba_Normal = 2 / 5, LR_proba_Tumor = 3 / 5\<rparr>]
      [[1, 0], [0, 0]] 2 (1 / 2) (Suc 0) ! 1))"
proof -
  have wf: "well_formed
      [\<lparr>Normal = 1, Tumor = 0, LR_proba_Normal = 9 / 10, LR_proba_Tumor = 1 / 10\<rparr>,
       \<lparr>Normal = 1 / 2, Tumor = 1 / 2, LR_proba_Normal = 2 / 5, LR_proba_Tumor = 3 / 5\<rparr>]
      [[1, 0], [0, 0]] 2 (1 / 2)"
    by (simp add: well_formed_def shapes_ok_def)
  have z: "row_sum (propagated_at
      [\<lparr>Normal = 1, Tumor = 0, LR_proba_Normal = 9 / 10, LR_proba_Tumor = 1 / 10\<rparr>,
       \<lparr>Normal = 1 / 2, Tumor = 1 / 2, LR_proba_Normal = 2 / 5, LR_proba_Tumor = 3 / 5\<rparr>]
      [[1, 0], [0, 0]] 2 (1 / 2) 0 ! 1) = Fin 0"
    by (simp add: propagated_at_def masked_at_def lp_eval trace_eval)
  from zero_row_sum_not_detected [OF wf] obtain m where
    a: "\<forall>i c. c < length
          [\<lparr>Normal = 1, Tumor = 0, LR_proba_Normal = 9 / 10, LR_proba_Tumor = 1 / 10\<rparr>,
           \<lparr>Normal = 1 / 2, Tumor = 1 / 2, LR_proba_Normal = 2 / 5, LR_proba_Tumor = 3 / 5\<rparr>]
        \<and> row_sum (propagated_at
          [\<lparr>Normal = 1, Tumor = 0, LR_proba_Normal = 9 / 10, LR_proba_Tumor = 1 / 10\<rparr>,
           \<lparr>Normal = 1 / 2, Tumor = 1 / 2, LR_proba_Normal = 2 / 5, LR_proba_Tumor = 3 / 5\<rparr>]
          [[1, 0], [0, 0]] 2 (1 / 2) i ! c) = Fin 0
      \<longrightarrow> \<not> is_fin (fst (working
          [\<lparr>Normal = 1, Tumor = 0, LR_proba_Normal = 9 / 10, LR_proba_Tumor = 1 / 10\<rparr>,
           \<lparr>Normal = 1 / 2, Tumor = 1 / 2, LR_proba_Normal = 2 / 5, LR_proba_Tumor = 3 / 5\<rparr>]
          [[1, 0], [0, 0]] 2 (1 / 2) (Suc i) ! c))
        \<and> \<not> is_fin (snd (working
          [\<lparr>Normal = 1, Tumor = 0, LR_proba_Normal = 9 / 10, LR_proba_Tumor = 1 / 10\<rparr>,
           \<lparr>Normal = 1 / 2, Tumor = 1 / 2, LR_proba_Normal = 2 / 5, LR_proba_Tumor = 3 / 5\<rparr>]
          [[1, 0], [0, 0]] 2 (1 / 2) (Suc i) ! c))"
    by blast
  have "(1::nat) < length
          [\<lparr>Normal = 1, Tumor = 0, LR_proba_Normal = 9 / 10, LR_proba_Tumor = 1 / 10\<rparr>,
           \<lparr>Normal = 1 / 2, Tumor = 1 / 2, LR_proba_Normal = 2 / 5, LR_proba_Tumor = 3 / 5\<rparr>]"
    by simp
  with a z have "\<not> is_fin (fst (working
          [\<lparr>Normal = 1, Tumor = 0, LR_proba_Normal = 9 / 10, LR_proba_Tumor = 1 / 10\<rparr>,
           \<lparr>Normal = 1 / 2, Tumor = 1 / 2, LR_proba_Normal = 2 / 5, LR_proba_Tumor = 3 / 5\<rparr>]
          [[1, 0], [0, 0]] 2 (1 / 2) (Suc 0) ! 1))"
    by blast
  with wf z show ?thesis by blast
qed

text \<open>
  C5 as stated fails: the second cell has no neighbour of non-zero weight, the product
  of line 218 gives it the row \<open>(0, 0)\<close>, and the run returns normally with \<open>nan\<close> in
  that row and \<open>nan\<close> as its label. The row that the cell had before (\<open>0.000001\<close> twice)
  is not kept.
\<close>

theorem zero_row_sum_divided_counterexample:
  "row_sum (np_dot [[1, 0], [0, 0]]
      (mask_rows [True, False] [(Fin (9 / 10), Fin (1 / 10)), (Fin (2 / 5), Fin (3 / 5))]) ! 1)
     = Fin 0
   \<and> label_propagation
      [\<lparr>Normal = 1, Tumor = 0, LR_proba_Normal = 9 / 10, LR_proba_Tumor = 1 / 10\<rparr>,
       \<lparr>Normal = 1 / 2, Tumor = 1 / 2, LR_proba_Normal = 2 / 5, LR_proba_Tumor = 3 / 5\<rparr>]
      [[1, 0], [0, 0]] 2 (1 / 2) =
     Inr \<lparr>certain = [True, False],
          certain_i = [[True, False], [True, False]],
          LR_with_label_propagation_tier_0_prediction = [Label_Normal, Label_NaN],
          LR_with_label_propagation_proba_Normal = [Fin (9 / 10), NaN],
          LR_with_label_propagation_proba_Tumor = [Fin (1 / 10), NaN],
          printed_warnings = [Fin (1 / 2)]\<rparr>"
  by (simp add: lp_eval upt_conv_Cons)

text \<open>
  C7. For a threshold in \<open>[0, 1]\<close>, a budget of at least two iterations and an iteration
  \<open>i\<close> of the budget, the level that line 210 computes is
  \<open>certainty_threshold * (1 - i / (n_iter - 1))\<close>: the threshold itself at iteration 0 and
  \<open>0\<close> at the last iteration of the budget. The quantile at that level does not raise,
  and the column \<^verbatim>\<open>certain{i}\<close> of a returned table is \<^verbatim>\<open>absdif > quantile\<close> at that level.
\<close>

theorem threshold_schedule:
  assumes "0 \<le> certainty_threshold" "certainty_threshold \<le> 1" "2 \<le> n_iter" "i < nat n_iter"
  shows "threshold_at n_iter certainty_threshold i
           = certainty_threshold * (1 - real i / real_of_int (n_iter - 1))
     \<and> threshold_at n_iter certainty_threshold 0 = certainty_threshold
     \<and> threshold_at n_iter certainty_threshold (nat (n_iter - 1)) = 0
     \<and> quantile absdif (threshold_at n_iter certainty_threshold i)
           = Inr (quantile_interp absdif
                    (certainty_threshold * (1 - real i / real_of_int (n_iter - 1))))
     \<and> (\<forall>results A out.
           label_propagation results A n_iter certainty_threshold = Inr out
           \<and> i < length (certain_i out)
         \<longrightarrow> certain_i out ! i
               = map (\<lambda>a. val_less
                        (quantile_interp (absdif_of results)
                           (certainty_threshold * (1 - real i / real_of_int (n_iter - 1))))
                        (Fin a))
                   (absdif_of results))"
proof -
  have f: "threshold_at n_iter certainty_threshold i
             = certainty_threshold * (1 - real i / real_of_int (n_iter - 1))"
    by (rule threshold_at_formula [OF assms(3)])
  have z: "threshold_at n_iter certainty_threshold 0 = certainty_threshold"
    using assms(3) by (simp add: threshold_at_first)
  have l: "threshold_at n_iter certainty_threshold (nat (n_iter - 1)) = 0"
    by (rule threshold_at_last [OF assms(3)])
  have q: "quantile absdif (threshold_at n_iter certainty_threshold i)
             = Inr (quantile_interp absdif
                      (certainty_threshold * (1 - real i / real_of_int (n_iter - 1))))"
  proof -
    have "quantile absdif (threshold_at n_iter certainty_threshold i)
            = Inr (quantile_interp absdif (threshold_at n_iter certainty_threshold i))"
      using quantile_in_range [OF assms, of absdif] by (simp only: threshold_at_def)
    then show ?thesis by (simp only: f)
  qed
  have o: "certain_i out ! i
             = map (\<lambda>a. val_less
                      (quantile_interp (absdif_of results)
                         (certainty_threshold * (1 - real i / real_of_int (n_iter - 1))))
                      (Fin a))
                 (absdif_of results)"
    if "label_propagation results A n_iter certainty_threshold = Inr out
        \<and> i < length (certain_i out)" for results A out
  proof -
    have n: "0 < n_iter" using assms(3) by simp
    from that lp_returns_run [OF _ n] obtain m where
      out: "out = run_result results A n_iter certainty_threshold m" by blast
    then have "i \<le> m" using that by (simp add: run_result_length)
    then have "certain_i out ! i = mask_at (absdif_of results) n_iter certainty_threshold i"
      using out by (simp add: run_result_column)
    then show ?thesis using f by (simp add: mask_at_def certain_mask_def)
  qed
  show ?thesis using f z l q o by blast
qed

theorem threshold_schedule_witness:
  "threshold_at 2 (1 / 2) 1 = 0
   \<and> threshold_at 2 (1 / 2) 0 = 1 / 2
   \<and> quantile [1, 0] (threshold_at 2 (1 / 2) 1) = Inr (Fin 0)
   \<and> label_propagation
      [\<lparr>Normal = 1, Tumor = 0, LR_proba_Normal = 9 / 10, LR_proba_Tumor = 1 / 10\<rparr>,
       \<lparr>Normal = 1 / 2, Tumor = 1 / 2, LR_proba_Normal = 2 / 5, LR_proba_Tumor = 3 / 5\<rparr>]
      [[1, 0], [0, 1]] 2 (1 / 2) =
     Inr \<lparr>certain = [True, False],
          certain_i = [[True, False], [True, False]],
          LR_with_label_propagation_tier_0_prediction = [Label_Normal, Label_Normal],
          LR_with_label_propagation_proba_Normal = [Fin (9 / 10), Fin (1 / 2)],
          LR_with_label_propagation_proba_Tumor = [Fin (1 / 10), Fin (1 / 2)],
          printed_warnings = [Fin 0]\<rparr>
   \<and> map (\<lambda>a. val_less (quantile_interp [1, 0] (1 / 2 * (1 - real 1 / real_of_int (2 - 1))))
                (Fin a)) [1, 0]
     = [True, False]"
proof -
  have a: "(0::real) \<le> 1 / 2" "(1 / 2 :: real) \<le> 1" "(2::int) \<le> 2" "1 < nat 2" by simp_all
  have r: "label_propagation
      [\<lparr>Normal = 1, Tumor = 0, LR_proba_Normal = 9 / 10, LR_proba_Tumor = 1 / 10\<rparr>,
       \<lparr>Normal = 1 / 2, Tumor = 1 / 2, LR_proba_Normal = 2 / 5, LR_proba_Tumor = 3 / 5\<rparr>]
      [[1, 0], [0, 1]] 2 (1 / 2) =
     Inr \<lparr>certain = [True, False],
          certain_i = [[True, False], [True, False]],
          LR_with_label_propagation_tier_0_prediction = [Label_Normal, Label_Normal],
          LR_with_label_propagation_proba_Normal = [Fin (9 / 10), Fin (1 / 2)],
          LR_with_label_propagation_proba_Tumor = [Fin (1 / 10), Fin (1 / 2)],
          printed_warnings = [Fin 0]\<rparr>"
    by (simp add: lp_eval upt_conv_Cons)
  have q: "quantile_interp [1, 0] (1 / 2 * (1 - real 1 / real_of_int (2 - 1))) = Fin 0"
    by (simp add: quantile_interp_def interpolate_def Let_def)
  have m: "map (\<lambda>a. val_less (quantile_interp [1, 0] (1 / 2 * (1 - real 1 / real_of_int (2 - 1))))
                (Fin a)) [1, 0] = [True, False]"
    by (simp add: quantile_interp_def interpolate_def Let_def)
  from threshold_schedule [OF a, of "[1, 0]"] q
  have "threshold_at 2 (1 / 2) 1 = 0 \<and> threshold_at 2 (1 / 2) 0 = 1 / 2
        \<and> quantile [1, 0] (threshold_at 2 (1 / 2) 1) = Inr (Fin 0)"
    by (simp add: quantile_def)
  with r m show ?thesis by blast
qed

text \<open>
  C6. For a threshold in \<open>[0, 1]\<close>, a budget of at least two iterations and iterations
  \<open>i \<le> j\<close> of the budget, every cell that the mask of iteration \<open>i\<close> marks certain is
  marked certain by the mask of iteration \<open>j\<close>, and so is every cell that the mask at the
  threshold itself marks certain; the same holds between the columns \<^verbatim>\<open>certain{i}\<close>,
  \<^verbatim>\<open>certain{j}\<close> and \<^verbatim>\<open>certain\<close> of a returned table.
\<close>

theorem certain_sets_grow:
  assumes "0 \<le> certainty_threshold" "certainty_threshold \<le> 1" "2 \<le> n_iter"
    and "i \<le> j" "j < nat n_iter"
  shows "(\<forall>c < length absdif.
            (mask_at absdif n_iter certainty_threshold i ! c
               \<longrightarrow> mask_at absdif n_iter certainty_threshold j ! c)
          \<and> (certain_mask absdif (quantile_interp absdif certainty_threshold) ! c
               \<longrightarrow> mask_at absdif n_iter certainty_threshold j ! c))
     \<and> (\<forall>results A out c.
           label_propagation results A n_iter certainty_threshold = Inr out
           \<and> j < length (certain_i out) \<and> c < length results
         \<longrightarrow> (certain_i out ! i ! c \<longrightarrow> certain_i out ! j ! c)
           \<and> (certain out ! c \<longrightarrow> certain_i out ! j ! c))"
proof -
  have n1: "1 \<le> n_iter" and n0: "0 < n_iter" using assms(3) by simp_all
  have zero: "certain_mask absdif (quantile_interp absdif certainty_threshold)
                = mask_at absdif n_iter certainty_threshold 0" for absdif
    by (simp add: mask_at_def threshold_at_first [OF n1])
  have m: "(mask_at absdif n_iter certainty_threshold i ! c
               \<longrightarrow> mask_at absdif n_iter certainty_threshold j ! c)
         \<and> (certain_mask absdif (quantile_interp absdif certainty_threshold) ! c
               \<longrightarrow> mask_at absdif n_iter certainty_threshold j ! c)"
    if c: "c < length absdif" for c absdif
    using mask_at_mono [OF assms(1-3) assms(4) assms(5) c]
          mask_at_mono [OF assms(1-3) le0 assms(5) c]
    by (simp add: zero)
  have o: "(certain_i out ! i ! c \<longrightarrow> certain_i out ! j ! c)
         \<and> (certain out ! c \<longrightarrow> certain_i out ! j ! c)"
    if h: "label_propagation results A n_iter certainty_threshold = Inr out
           \<and> j < length (certain_i out) \<and> c < length results" for results A out c
  proof -
    from h lp_returns_run [OF _ n0] obtain k where
      out: "out = run_result results A n_iter certainty_threshold k" by blast
    have jk: "j \<le> k" using h out by (simp add: run_result_length)
    then have ik: "i \<le> k" using assms(4) by simp
    have c: "c < length (absdif_of results)" using h by (simp add: length_absdif_of)
    show ?thesis
      using m [OF c] by (simp add: out run_result_column [OF jk] run_result_column [OF ik]
                                   run_result_certain)
  qed
  show ?thesis using m o by blast
qed

theorem certain_sets_grow_witness:
  "mask_at [1 / 5, 1 / 2, 1] 3 1 0 = [False, False, False]
   \<and> mask_at [1 / 5, 1 / 2, 1] 3 1 1 = [False, False, True]
   \<and> mask_at [1 / 5, 1 / 2, 1] 3 1 2 = [False, True, True]
   \<and> mask_at [1 / 5, 1 / 2, 1] 3 1 2 ! 2
   \<and> label_propagation
      [\<lparr>Normal = 1 / 5, Tumor = 0, LR_proba_Normal = 3 / 5, LR_proba_Tumor = 2 / 5\<rparr>,
       \<lparr>Normal = 0, Tumor = 1 / 2, LR_proba_Normal = 3 / 10, LR_proba_Tumor = 7 / 10\<rparr>,
       \<lparr>Normal = 1, Tumor = 0, LR_proba_Normal = 9 / 10, LR_proba_Tumor = 1 / 10\<rparr>]
      [[1, 0, 1], [0, 1, 1], [1, 1, 1]] 3 1 =
     Inr \<lparr>certain = [False, False, False],
          certain_i = [[False, False, False], [False, False, True], [False, True, True]],
          LR_with_label_propagation_tier_0_prediction =
            [Label_Normal, Label_Normal, Label_Normal],
          LR_with_label_propagation_proba_Normal = [Fin (1 / 2), Fin (1 / 2), Fin (1 / 2)],
          LR_with_label_propagation_proba_Tumor = [Fin (1 / 2), Fin (1 / 2), Fin (1 / 2)],
          printed_warnings = [Fin 0]\<rparr>"
proof -
  have a: "(0::real) \<le> 1" "(1::real) \<le> 1" "(2::int) \<le> 3" "(1::nat) \<le> 2" "2 < nat 3"
    by simp_all
  have c: "2 < length [1 / 5, 1 / 2, 1 :: real]" by simp
  have e: "mask_at [1 / 5, 1 / 2, 1] 3 1 0 = [False, False, False]"
    "mask_at [1 / 5, 1 / 2, 1] 3 1 1 = [False, False, True]"
    "mask_at [1 / 5, 1 / 2, 1] 3 1 2 = [False, True, True]"
    by (simp_all add: mask_at_def threshold_at_def linspace_1_0_def certain_mask_def
                      quantile_interp_def interpolate_def Let_def)
  have r: "label_propagation
      [\<lparr>Normal = 1 / 5, Tumor = 0, LR_proba_Normal = 3 / 5, LR_proba_Tumor = 2 / 5\<rparr>,
       \<lparr>Normal = 0, Tumor = 1 / 2, LR_proba_Normal = 3 / 10, LR_proba_Tumor = 7 / 10\<rparr>,
       \<lparr>Normal = 1, Tumor = 0, LR_proba_Normal = 9 / 10, LR_proba_Tumor = 1 / 10\<rparr>]
      [[1, 0, 1], [0, 1, 1], [1, 1, 1]] 3 1 =
     Inr \<lparr>certain = [False, False, False],
          certain_i = [[False, False, False], [False, False, True], [False, True, True]],
          LR_with_label_propagation_tier_0_prediction =
            [Label_Normal, Label_Normal, Label_Normal],
          LR_with_label_propagation_proba_Normal = [Fin (1 / 2), Fin (1 / 2), Fin (1 / 2)],
          LR_with_label_propagation_proba_Tumor = [Fin (1 / 2), Fin (1 / 2), Fin (1 / 2)],
          printed_warnings = [Fin 0]\<rparr>"
    by (simp add: lp_eval upt_conv_Cons)
  from certain_sets_grow [OF a, of "[1 / 5, 1 / 2, 1]"] c
  have "mask_at [1 / 5, 1 / 2, 1] 3 1 1 ! 2 \<longrightarrow> mask_at [1 / 5, 1 / 2, 1] 3 1 2 ! 2"
    by blast
  moreover have "mask_at [1 / 5, 1 / 2, 1] 3 1 1 ! 2" unfolding e by simp
  ultimately show ?thesis using e r by blast
qed

text \<open>
  C3, as the code has it. The confidence behind every mask is the absolute difference of
  the columns \<^verbatim>\<open>'Normal'\<close> and \<^verbatim>\<open>'Tumor'\<close> that the table has on entry (line 202 reads
  \<^verbatim>\<open>results\<close>, not \<^verbatim>\<open>proba_tier_0\<close>), not of the classifier's probabilities. It is one
  vector, the same for the column \<^verbatim>\<open>certain\<close> and for every column \<^verbatim>\<open>certain{i}\<close>; only
  the level of the quantile changes.
\<close>

theorem confidence_from_score_columns:
  assumes "label_propagation results A n_iter certainty_threshold = Inr out"
  shows "certain out
           = map (\<lambda>a. val_less
                    (quantile_interp (map (\<lambda>c. \<bar>Normal c - Tumor c\<bar>) results)
                       certainty_threshold)
                    (Fin a))
               (map (\<lambda>c. \<bar>Normal c - Tumor c\<bar>) results)
     \<and> (\<forall>i < length (certain_i out).
           certain_i out ! i
             = map (\<lambda>a. val_less
                      (quantile_interp (map (\<lambda>c. \<bar>Normal c - Tumor c\<bar>) results)
                         (certainty_threshold * linspace_1_0 n_iter i))
                      (Fin a))
                 (map (\<lambda>c. \<bar>Normal c - Tumor c\<bar>) results))"
proof (cases "n_iter \<le> 0")
  case True
  from lp_returns_cases [OF assms] have t: "0 \<le> certainty_threshold" "certainty_threshold \<le> 1"
    by simp_all
  from lp_no_iteration [OF t True, of results A] assms
  have "out = assemble (certain_mask (absdif_of results)
                 (quantile_interp (absdif_of results) certainty_threshold))
               (initial_state results)"
    by simp
  then show ?thesis
    by (simp add: assemble_def initial_state_def certain_mask_def absdif_of_def)
next
  case False
  then have n: "0 < n_iter" by simp
  from lp_returns_run [OF assms n] obtain m where
    out: "out = run_result results A n_iter certainty_threshold m" by blast
  have c: "certain out
           = map (\<lambda>a. val_less
                    (quantile_interp (map (\<lambda>c. \<bar>Normal c - Tumor c\<bar>) results)
                       certainty_threshold)
                    (Fin a))
               (map (\<lambda>c. \<bar>Normal c - Tumor c\<bar>) results)"
    by (simp add: out run_result_certain certain_mask_def absdif_of_def)
  have "certain_i out ! i
             = map (\<lambda>a. val_less
                      (quantile_interp (map (\<lambda>c. \<bar>Normal c - Tumor c\<bar>) results)
                         (certainty_threshold * linspace_1_0 n_iter i))
                      (Fin a))
                 (map (\<lambda>c. \<bar>Normal c - Tumor c\<bar>) results)"
    if "i < length (certain_i out)" for i
  proof -
    from that have "i \<le> m" by (simp add: out run_result_length)
    then show ?thesis
      by (simp add: out run_result_column mask_at_def threshold_at_def certain_mask_def
                    absdif_of_def)
  qed
  with c show ?thesis by blast
qed

theorem confidence_from_score_columns_witness:
  "label_propagation
      [\<lparr>Normal = 1 / 2, Tumor = 1 / 2, LR_proba_Normal = 9 / 10, LR_proba_Tumor = 1 / 10\<rparr>,
       \<lparr>Normal = 1, Tumor = 0, LR_proba_Normal = 1 / 2, LR_proba_Tumor = 1 / 2\<rparr>]
      [[1, 0], [0, 1]] 2 (1 / 2) =
     Inr \<lparr>certain = [False, True],
          certain_i = [[False, True], [False, True]],
          LR_with_label_propagation_tier_0_prediction = [Label_Normal, Label_Normal],
          LR_with_label_propagation_proba_Normal = [Fin (1 / 2), Fin (1 / 2)],
          LR_with_label_propagation_proba_Tumor = [Fin (1 / 2), Fin (1 / 2)],
          printed_warnings = [Fin 0]\<rparr>
   \<and> map (\<lambda>a. val_less (quantile_interp [0, 1] (1 / 2)) (Fin a)) [0, 1] = [False, True]"
proof -
  have r: "label_propagation
      [\<lparr>Normal = 1 / 2, Tumor = 1 / 2, LR_proba_Normal = 9 / 10, LR_proba_Tumor = 1 / 10\<rparr>,
       \<lparr>Normal = 1, Tumor = 0, LR_proba_Normal = 1 / 2, LR_proba_Tumor = 1 / 2\<rparr>]
      [[1, 0], [0, 1]] 2 (1 / 2) =
     Inr \<lparr>certain = [False, True],
          certain_i = [[False, True], [False, True]],
          LR_with_label_propagation_tier_0_prediction = [Label_Normal, Label_Normal],
          LR_with_label_propagation_proba_Normal = [Fin (1 / 2), Fin (1 / 2)],
          LR_with_label_propagation_proba_Tumor = [Fin (1 / 2), Fin (1 / 2)],
          printed_warnings = [Fin 0]\<rparr>"
    by (simp add: lp_eval upt_conv_Cons)
  show ?thesis using r confidence_from_score_columns [OF r] by simp
qed

text \<open>
  C3 as stated fails: the classifier is sure of the first cell and undecided on the
  second, the score columns say the opposite, and the masks follow the score columns.
\<close>

theorem confidence_not_from_classifier_counterexample:
  "spec_confidence
      [\<lparr>Normal = 1 / 2, Tumor = 1 / 2, LR_proba_Normal = 9 / 10, LR_proba_Tumor = 1 / 10\<rparr>,
       \<lparr>Normal = 1, Tumor = 0, LR_proba_Normal = 1 / 2, LR_proba_Tumor = 1 / 2\<rparr>]
     = [4 / 5, 0]
   \<and> certain_mask [4 / 5, 0] (quantile_interp [4 / 5, 0] (1 / 2)) = [True, False]
   \<and> label_propagation
      [\<lparr>Normal = 1 / 2, Tumor = 1 / 2, LR_proba_Normal = 9 / 10, LR_proba_Tumor = 1 / 10\<rparr>,
       \<lparr>Normal = 1, Tumor = 0, LR_proba_Normal = 1 / 2, LR_proba_Tumor = 1 / 2\<rparr>]
      [[1, 0], [0, 1]] 2 (1 / 2) =
     Inr \<lparr>certain = [False, True],
          certain_i = [[False, True], [False, True]],
          LR_with_label_propagation_tier_0_prediction = [Label_Normal, Label_Normal],
          LR_with_label_propagation_proba_Normal = [Fin (1 / 2), Fin (1 / 2)],
          LR_with_label_propagation_proba_Tumor = [Fin (1 / 2), Fin (1 / 2)],
          printed_warnings = [Fin 0]\<rparr>"
  by (simp add: spec_confidence_def lp_eval upt_conv_Cons)

text \<open>
  C2, as the code has it. Line 216 masks the working matrix \<^verbatim>\<open>proba_tier_0\<close> in place,
  and line 220 writes the renormalized product back into it. So the mask step of
  iteration 0 starts from the classifier's probabilities, and the mask step of every later
  iteration from the matrix that the iteration before left: the rows of uncertain cells
  become \<open>0.000001\<close> twice, the rows of certain cells keep the values of the working
  matrix.
\<close>

theorem mask_applies_to_working_matrix:
  assumes "label_propagation results A n_iter certainty_threshold = Inr out"
    and "0 < n_iter"
  shows "\<exists>m. length (certain_i out) = Suc m
     \<and> LR_with_label_propagation_proba_Normal out
         = map fst (working results A n_iter certainty_threshold (Suc m))
     \<and> LR_with_label_propagation_proba_Tumor out
         = map snd (working results A n_iter certainty_threshold (Suc m))
     \<and> working results A n_iter certainty_threshold 0 = initial_proba results
     \<and> (\<forall>i \<le> m.
           working results A n_iter certainty_threshold (Suc i)
             = divide_rows (np_dot A (masked_at results A n_iter certainty_threshold i))
           \<and> (\<forall>c < length results.
                 masked_at results A n_iter certainty_threshold i ! c
                   = (if certain_i out ! i ! c
                      then working results A n_iter certainty_threshold i ! c
                      else (Fin (1 / 1000000), Fin (1 / 1000000)))))"
proof -
  from lp_returns_run [OF assms] obtain m where
    wf: "well_formed results A n_iter certainty_threshold"
    and out: "out = run_result results A n_iter certainty_threshold m" by blast
  from wf have sh: "shapes_ok A (length results)" by (simp add: well_formed_def)
  have len: "length (certain_i out) = Suc m" by (simp add: out run_result_length)
  have pn: "LR_with_label_propagation_proba_Normal out
         = map fst (working results A n_iter certainty_threshold (Suc m))"
    by (simp add: out run_result_def del: working.simps)
  have pt: "LR_with_label_propagation_proba_Tumor out
         = map snd (working results A n_iter certainty_threshold (Suc m))"
    by (simp add: out run_result_def del: working.simps)
  have w0: "working results A n_iter certainty_threshold 0 = initial_proba results" by simp
  have st: "working results A n_iter certainty_threshold (Suc i)
             = divide_rows (np_dot A (masked_at results A n_iter certainty_threshold i))
           \<and> (\<forall>c < length results.
                 masked_at results A n_iter certainty_threshold i ! c
                   = (if certain_i out ! i ! c
                      then working results A n_iter certainty_threshold i ! c
                      else (Fin (1 / 1000000), Fin (1 / 1000000))))"
    if i: "i \<le> m" for i
  proof -
    have col: "certain_i out ! i = mask_at (absdif_of results) n_iter certainty_threshold i"
      by (simp add: out run_result_column [OF i])
    have "masked_at results A n_iter certainty_threshold i ! c
            = (if certain_i out ! i ! c
               then working results A n_iter certainty_threshold i ! c
               else (Fin (1 / 1000000), Fin (1 / 1000000)))"
      if c: "c < length results" for c
    proof -
      have c1: "c < length (mask_at (absdif_of results) n_iter certainty_threshold i)"
        using c by (simp add: length_mask_at length_absdif_of)
      have c2: "c < length (working results A n_iter certainty_threshold i)"
        using c by (simp add: length_working [OF sh])
      show ?thesis
        using mask_rows_nth [OF c1 c2] by (simp add: masked_at_def masked_at_step_def col)
    qed
    moreover have "working results A n_iter certainty_threshold (Suc i)
             = divide_rows (np_dot A (masked_at results A n_iter certainty_threshold i))"
      by (simp add: working_Suc propagated_at_def del: working.simps)
    ultimately show ?thesis by blast
  qed
  show ?thesis using len pn pt w0 st by blast
qed

theorem mask_applies_to_working_matrix_witness:
  "label_propagation
      [\<lparr>Normal = 1, Tumor = 0, LR_proba_Normal = 9 / 10, LR_proba_Tumor = 1 / 10\<rparr>,
       \<lparr>Normal = 1 / 2, Tumor = 1 / 2, LR_proba_Normal = 2 / 5, LR_proba_Tumor = 3 / 5\<rparr>]
      [[1, 1], [1, 1]] 2 (1 / 2) =
     Inr \<lparr>certain = [True, False],
          certain_i = [[True, False], [True, False]],
          LR_with_label_propagation_tier_0_prediction = [Label_Normal, Label_Normal],
          LR_with_label_propagation_proba_Normal =
            [Fin (450001000001 / 500002000002), Fin (450001000001 / 500002000002)],
          LR_with_label_propagation_proba_Tumor =
            [Fin (50001000001 / 500002000002), Fin (50001000001 / 500002000002)],
          printed_warnings = [Fin 0]\<rparr>
   \<and> (0::int) < 2"
proof -
  have r: "label_propagation
      [\<lparr>Normal = 1, Tumor = 0, LR_proba_Normal = 9 / 10, LR_proba_Tumor = 1 / 10\<rparr>,
       \<lparr>Normal = 1 / 2, Tumor = 1 / 2, LR_proba_Normal = 2 / 5, LR_proba_Tumor = 3 / 5\<rparr>]
      [[1, 1], [1, 1]] 2 (1 / 2) =
     Inr \<lparr>certain = [True, False],
          certain_i = [[True, False], [True, False]],
          LR_with_label_propagation_tier_0_prediction = [Label_Normal, Label_Normal],
          LR_with_label_propagation_proba_Normal =
            [Fin (450001000001 / 500002000002), Fin (450001000001 / 500002000002)],
          LR_with_label_propagation_proba_Tumor =
            [Fin (50001000001 / 500002000002), Fin (50001000001 / 500002000002)],
          printed_warnings = [Fin 0]\<rparr>"
    by (simp add: lp_eval upt_conv_Cons)
  have n: "(0::int) < 2" by simp
  from mask_applies_to_working_matrix [OF r n] r n show ?thesis by blast
qed

text \<open>
  C2 as stated fails: in iteration 1 the first cell is certain, and its row in the masked
  matrix is the renormalized row of iteration 0, not the classifier's \<open>(0.9, 0.1)\<close>.
  Masking the classifier's probabilities afresh would give the table other probabilities
  than the ones the run returns.
\<close>

theorem mask_from_initial_probabilities_counterexample:
  "mask_at
      (absdif_of
        [\<lparr>Normal = 1, Tumor = 0, LR_proba_Normal = 9 / 10, LR_proba_Tumor = 1 / 10\<rparr>,
         \<lparr>Normal = 1 / 2, Tumor = 1 / 2, LR_proba_Normal = 2 / 5, LR_proba_Tumor = 3 / 5\<rparr>])
      2 (1 / 2) 1 = [True, False]
   \<and> masked_at
      [\<lparr>Normal = 1, Tumor = 0, LR_proba_Normal = 9 / 10, LR_proba_Tumor = 1 / 10\<rparr>,
       \<lparr>Normal = 1 / 2, Tumor = 1 / 2, LR_proba_Normal = 2 / 5, LR_proba_Tumor = 3 / 5\<rparr>]
      [[1, 1], [1, 1]] 2 (1 / 2) 1
     = [(Fin (900001 / 1000002), Fin (100001 / 1000002)),
        (Fin (1 / 1000000), Fin (1 / 1000000))]
   \<and> initial_proba
      [\<lparr>Normal = 1, Tumor = 0, LR_proba_Normal = 9 / 10, LR_proba_Tumor = 1 / 10\<rparr>,
       \<lparr>Normal = 1 / 2, Tumor = 1 / 2, LR_proba_Normal = 2 / 5, LR_proba_Tumor = 3 / 5\<rparr>]
     = [(Fin (9 / 10), Fin (1 / 10)), (Fin (2 / 5), Fin (3 / 5))]
   \<and> divide_rows (np_dot [[1, 1], [1, 1]]
        (mask_rows [True, False] [(Fin (9 / 10), Fin (1 / 10)), (Fin (2 / 5), Fin (3 / 5))]))
     = [(Fin (900001 / 1000002), Fin (100001 / 1000002)),
        (Fin (900001 / 1000002), Fin (100001 / 1000002))]
   \<and> label_propagation
      [\<lparr>Normal = 1, Tumor = 0, LR_proba_Normal = 9 / 10, LR_proba_Tumor = 1 / 10\<rparr>,
       \<lparr>Normal = 1 / 2, Tumor = 1 / 2, LR_proba_Normal = 2 / 5, LR_proba_Tumor = 3 / 5\<rparr>]
      [[1, 1], [1, 1]] 2 (1 / 2) =
     Inr \<lparr>certain = [True, False],
          certain_i = [[True, False], [True, False]],
          LR_with_label_propagation_tier_0_prediction = [Label_Normal, Label_Normal],
          LR_with_label_propagation_proba_Normal =
            [Fin (450001000001 / 500002000002), Fin (450001000001 / 500002000002)],
          LR_with_label_propagation_proba_Tumor =
            [Fin (50001000001 / 500002000002), Fin (50001000001 / 500002000002)],
          printed_warnings = [Fin 0]\<rparr>"
  by (simp add: masked_at_def lp_eval trace_eval upt_conv_Cons)

end
